theory Spec2Isabelle
  imports Complex_Main
begin

section \<open>Values\<close>

text \<open>
  The script works on pandas data frames read from three CSV files. A number in a frame
  is a 64-bit float: a finite value, one of the two infinities, or NaN, which pandas also
  uses as its missing marker. Finite values are modelled by the reals: rounding is not
  part of the model, only the order, the sign and the special values are.
\<close>

datatype pyfloat = Fin real | PInf | NInf | NaN

text \<open>A cell of a frame read from CSV is a number (NaN when missing) or a text.\<close>

datatype cell = Num pyfloat | Str string

text \<open>\<^verbatim>\<open>pd.isna\<close> on a scalar.\<close>

fun isna :: "cell \<Rightarrow> bool" where
  "isna (Num NaN) = True"
| "isna _ = False"

text \<open>
  \<^verbatim>\<open>pd.to_numeric(v, errors='coerce')\<close> on one value. The parser of numeric text
  belongs to pandas; it is a parameter \<open>parse\<close>, with \<open>None\<close> for a text that does not
  parse. A number is left as it is, a text that does not parse becomes NaN.
\<close>

fun to_numeric :: "(string \<Rightarrow> pyfloat option) \<Rightarrow> cell \<Rightarrow> cell" where
  "to_numeric parse (Num x) = Num x"
| "to_numeric parse (Str s) = (case parse s of Some x \<Rightarrow> Num x | None \<Rightarrow> Num NaN)"

text \<open>The Python exceptions of the script's library calls, as values.\<close>

datatype pyerr =
    KeyError "string list"
  | IndexError
  | TypeError
  | ValueError
  | MergeError "string list"
  | OtherError string

section \<open>Data frames\<close>

text \<open>
  A row pairs each column label with its cell, in column order; a frame keeps its column
  labels apart from its rows, since a frame without rows still has columns.
\<close>

type_synonym row = "(string \<times> cell) list"

record frame =
  columns :: "string list"
  rows :: "row list"

definition wf_frame :: "frame \<Rightarrow> bool" where
  "wf_frame f = list_all (\<lambda>r. map fst r = columns f) (rows f)"

text \<open>Reading a cell of a row; a label the row does not have reads as missing.\<close>

definition cell_at :: "row \<Rightarrow> string \<Rightarrow> cell" where
  "cell_at r c = (case map_of r c of Some v \<Rightarrow> v | None \<Rightarrow> Num NaN)"

text \<open>The column labels used by the script.\<close>

definition WPOS :: string where "WPOS = ''Weighted Playoff Offense Score''"
definition OM :: string where "OM = ''Offensive Momentum''"
definition OPA :: string where "OPA = ''opp_avg_points_allowed''"
definition ODT :: string where "ODT = ''opp_def_tier''"
definition PTS :: string where "PTS = ''points_scored''"
definition TEAM :: string where "TEAM = ''Team''"
definition OPPONENT :: string where "OPPONENT = ''Opponent''"
definition TEAM_OPP :: string where "TEAM_OPP = ''Team_opp''"
definition APA :: string where "APA = ''Average Points Allowed Per Game''"
definition APS :: string where "APS = ''Average Points Scored Per Game''"
definition DTR :: string where "DTR = ''Defensive Tier Rank''"

definition features :: "string list" where
  "features = [WPOS, OM, OPA, ODT]"

text \<open>\<^verbatim>\<open>df[c] = f(df[c])\<close> for an elementwise \<open>f\<close>, on one row.\<close>

definition update_cell :: "string \<Rightarrow> (cell \<Rightarrow> cell) \<Rightarrow> row \<Rightarrow> row" where
  "update_cell c f r = map (\<lambda>(k, v). if k = c then (k, f v) else (k, v)) r"

text \<open>The labels of a list that are not columns of the frame.\<close>

definition absent :: "string list \<Rightarrow> frame \<Rightarrow> string list" where
  "absent cs f = filter (\<lambda>c. c \<notin> set (columns f)) cs"

text \<open>
  \<^verbatim>\<open>df.dropna(subset=cs)\<close>: a KeyError when a label of the subset is not a column,
  otherwise the rows with no missing cell under the subset's labels.
\<close>

definition complete :: "string list \<Rightarrow> row \<Rightarrow> bool" where
  "complete cs r = list_all (\<lambda>c. \<not> isna (cell_at r c)) cs"

definition dropna :: "string list \<Rightarrow> frame \<Rightarrow> pyerr + frame" where
  "dropna cs f =
     (if absent cs f \<noteq> [] then Inl (KeyError (absent cs f))
      else Inr (f\<lparr>rows := filter (complete cs) (rows f)\<rparr>))"

section \<open>Cleaner\<close>

text \<open>
  Lines 56 to 62 of the script: the score column is replaced by its numeric coercion
  (a KeyError when the frame has no such column), then the rows missing a feature are
  dropped.
\<close>

definition coerce_row :: "(string \<Rightarrow> pyfloat option) \<Rightarrow> row \<Rightarrow> row" where
  "coerce_row parse r = update_cell WPOS (to_numeric parse) r"

definition cleaner :: "(string \<Rightarrow> pyfloat option) \<Rightarrow> frame \<Rightarrow> pyerr + frame" where
  "cleaner parse games =
     (if WPOS \<notin> set (columns games) then Inl (KeyError [WPOS])
      else dropna features (games\<lparr>rows := map (coerce_row parse) (rows games)\<rparr>))"

section \<open>Joiner\<close>

text \<open>\<^verbatim>\<open>df.rename(columns=m)\<close>: a label that is a key of \<open>m\<close> is replaced.\<close>

definition rename_label :: "(string \<times> string) list \<Rightarrow> string \<Rightarrow> string" where
  "rename_label m c = (case map_of m c of Some c' \<Rightarrow> c' | None \<Rightarrow> c)"

definition rename :: "(string \<times> string) list \<Rightarrow> frame \<Rightarrow> frame" where
  "rename m f =
     \<lparr>columns = map (rename_label m) (columns f),
      rows = map (map (\<lambda>(k, v). (rename_label m k, v))) (rows f)\<rparr>"

text \<open>\<^verbatim>\<open>df[cs]\<close> for a list of labels, and \<^verbatim>\<open>df[c]\<close> for one label.\<close>

definition select_columns :: "string list \<Rightarrow> frame \<Rightarrow> pyerr + frame" where
  "select_columns cs f =
     (if absent cs f \<noteq> [] then Inl (KeyError (absent cs f))
      else Inr \<lparr>columns = cs, rows = map (\<lambda>r. map (\<lambda>c. (c, cell_at r c)) cs) (rows f)\<rparr>)"

definition get_column :: "string \<Rightarrow> frame \<Rightarrow> pyerr + cell list" where
  "get_column c f =
     (if c \<notin> set (columns f) then Inl (KeyError [c])
      else Inr (map (\<lambda>r. cell_at r c) (rows f)))"

text \<open>\<^verbatim>\<open>df.drop(columns=cs)\<close>.\<close>

definition drop_columns :: "string list \<Rightarrow> frame \<Rightarrow> pyerr + frame" where
  "drop_columns cs f =
     (if absent cs f \<noteq> [] then Inl (KeyError (absent cs f))
      else Inr \<lparr>columns = filter (\<lambda>c. c \<notin> set cs) (columns f),
                rows = map (filter (\<lambda>(k, v). k \<notin> set cs)) (rows f)\<rparr>)"

text \<open>
  The kind of a key column, read off its cells as \<^verbatim>\<open>read_csv\<close> infers it: a column
  with a text in it is a text column, a column of numbers and missing markers only, in a
  frame with rows, is a number column. pandas refuses to merge a text key with a number
  key; a frame without rows is merged with anything.
\<close>

fun is_text :: "cell \<Rightarrow> bool" where
  "is_text (Str s) = True"
| "is_text (Num x) = False"

definition text_column :: "frame \<Rightarrow> string \<Rightarrow> bool" where
  "text_column f c = list_ex (\<lambda>r. is_text (cell_at r c)) (rows f)"

definition number_column :: "frame \<Rightarrow> string \<Rightarrow> bool" where
  "number_column f c = (rows f \<noteq> [] \<and> \<not> text_column f c)"

definition key_mismatch :: "frame \<Rightarrow> string \<Rightarrow> frame \<Rightarrow> string \<Rightarrow> bool" where
  "key_mismatch left lk right rk =
     (text_column left lk \<and> number_column right rk
      \<or> number_column left lk \<and> text_column right rk)"

text \<open>
  The labels a suffix makes equal to an earlier label of the same side: pandas refuses
  them, but not the labels that were repeated before the suffixes were added.
\<close>

fun suffix_dups :: "(string \<Rightarrow> string) \<Rightarrow> string list \<Rightarrow> string list \<Rightarrow> string list" where
  "suffix_dups f seen [] = []"
| "suffix_dups f seen (c # cs) =
     (if f c \<in> set (map f seen) \<and> c \<notin> set seen then f c # suffix_dups f (seen @ [c]) cs
      else suffix_dups f (seen @ [c]) cs)"

text \<open>
  \<^verbatim>\<open>left.merge(right, left_on=lk, right_on=rk, how="left", suffixes=(ls, rs))\<close>.
  pandas looks the right key up first, then the left key (a KeyError), then compares the
  kinds of the two key columns (a ValueError). Each left row, in order, is paired with
  every right row whose key cell equals its own (missing keys match each other, as in
  pandas); a left row without a partner is kept once, with missing cells under the right
  frame's labels. When both keys have the same label (\<^verbatim>\<open>on=\<close>) the right key column
  is left out. A label that both sides have gets the side's suffix: a ValueError when both
  suffixes are empty, a MergeError when a suffix makes a label equal to another one.
\<close>

definition right_labels :: "string \<Rightarrow> string \<Rightarrow> frame \<Rightarrow> string list" where
  "right_labels lk rk right =
     (if lk = rk then filter (\<lambda>c. c \<noteq> rk) (columns right) else columns right)"

definition left_label :: "string \<Rightarrow> string list \<Rightarrow> string \<Rightarrow> string" where
  "left_label ls rcols c = (if c \<in> set rcols then c @ ls else c)"

definition right_label :: "string \<Rightarrow> string list \<Rightarrow> string \<Rightarrow> string" where
  "right_label rs lcols c = (if c \<in> set lcols then c @ rs else c)"

definition left_part :: "(string \<Rightarrow> string) \<Rightarrow> row \<Rightarrow> row" where
  "left_part lname lr = map (\<lambda>(k, v). (lname k, v)) lr"

definition join_row ::
  "(string \<Rightarrow> string) \<Rightarrow> (string \<Rightarrow> string) \<Rightarrow> string list \<Rightarrow> row \<Rightarrow> row list \<Rightarrow> row list"
  where
  "join_row lname rname rcols lr partners =
     (if partners = [] then [left_part lname lr @ map (\<lambda>c. (rname c, Num NaN)) rcols]
      else map (\<lambda>rr. left_part lname lr @ map (\<lambda>c. (rname c, cell_at rr c)) rcols) partners)"

definition merge_left ::
  "string \<Rightarrow> string \<Rightarrow> string \<Rightarrow> string \<Rightarrow> frame \<Rightarrow> frame \<Rightarrow> pyerr + frame" where
  "merge_left lk rk ls rs left right =
     (if rk \<notin> set (columns right) then Inl (KeyError [rk])
      else if lk \<notin> set (columns left) then Inl (KeyError [lk])
      else if key_mismatch left lk right rk then Inl ValueError
      else
        let rcols = right_labels lk rk right;
            lname = left_label ls rcols;
            rname = right_label rs (columns left);
            dups = suffix_dups lname [] (columns left) @ suffix_dups rname [] rcols
        in if ls = [] \<and> rs = [] \<and> list_ex (\<lambda>c. c \<in> set rcols) (columns left)
           then Inl ValueError
           else if dups \<noteq> [] then Inl (MergeError dups)
           else Inr \<lparr>columns = map lname (columns left) @ map rname rcols,
                 rows = concat (map (\<lambda>lr.
                    join_row lname rname rcols lr
                      (filter (\<lambda>rr. cell_at rr rk = cell_at lr lk) (rows right)))
                  (rows left))\<rparr>)"

text \<open>
  The row a left row becomes when it has at most one partner: its own cells, then, under
  the right frame's labels, the partner's cells or missing markers.
\<close>

definition joined_row ::
  "string \<Rightarrow> string \<Rightarrow> string \<Rightarrow> string \<Rightarrow> frame \<Rightarrow> frame \<Rightarrow> row \<Rightarrow> row" where
  "joined_row lk rk ls rs left right lr =
     left_part (left_label ls (right_labels lk rk right)) lr
       @ map (\<lambda>c. (right_label rs (columns left) c,
                    (case filter (\<lambda>rr. cell_at rr rk = cell_at lr lk) (rows right) of
                       [] \<Rightarrow> Num NaN
                     | rr # _ \<Rightarrow> cell_at rr c)))
           (right_labels lk rk right)"

text \<open>
  The cell a game gets from its partner in a frame keyed by team: the partner's cell, or
  the missing marker when the team has no row there. With it, the labels and the row of a
  game after the first join (a label that games and summary share gets its suffix), the
  label of the opponent's points allowed, and the row of a game in the joined table.
\<close>

definition partner_cell :: "frame \<Rightarrow> cell \<Rightarrow> string \<Rightarrow> cell" where
  "partner_cell right key c =
     (case filter (\<lambda>r. cell_at r TEAM = key) (rows right) of
        [] \<Rightarrow> Num NaN
      | r # _ \<Rightarrow> cell_at r c)"

definition summary_labels :: "frame \<Rightarrow> string list" where
  "summary_labels summary = filter (\<lambda>c. c \<noteq> TEAM) (columns summary)"

definition first_row :: "frame \<Rightarrow> frame \<Rightarrow> row \<Rightarrow> row" where
  "first_row games summary g =
     left_part (left_label ''_x'' (summary_labels summary)) g
       @ map (\<lambda>c. (right_label ''_y'' (columns games) c,
                    partner_cell summary (cell_at g TEAM) c))
           (summary_labels summary)"

definition first_labels :: "frame \<Rightarrow> frame \<Rightarrow> string list" where
  "first_labels games summary =
     map (left_label ''_x'' (summary_labels summary)) (columns games)
       @ map (right_label ''_y'' (columns games)) (summary_labels summary)"

definition allowed_label :: "frame \<Rightarrow> frame \<Rightarrow> string" where
  "allowed_label games summary = right_label ''_opp'' (first_labels games summary) OPA"

definition joined_row_of :: "frame \<Rightarrow> frame \<Rightarrow> frame \<Rightarrow> row \<Rightarrow> row" where
  "joined_row_of games summary teams_opp g =
     first_row games summary g
       @ [(allowed_label games summary, partner_cell teams_opp (cell_at g OPPONENT) OPA)]"

text \<open>Lines 25 to 39: the renamings and the opponent-defense projection.\<close>

definition rename_games :: "frame \<Rightarrow> frame" where
  "rename_games games =
     rename [(''Points Scored'', PTS), (''Opponent Defensive Tier'', ODT),
             (''Game #'', ''game_num'')] games"

definition rename_summary :: "frame \<Rightarrow> frame" where
  "rename_summary summary =
     rename [(''Tier 1 Avg Points'', ''tier1_avg''), (''Tier 2 Avg Points'', ''tier2_avg''),
             (''Tier 3 Avg Points'', ''tier3_avg''), (''Tier 4 Avg Points'', ''tier4_avg'')]
       summary"

definition teams_opp_of :: "frame \<Rightarrow> pyerr + frame" where
  "teams_opp_of teams =
     (case select_columns [TEAM, APA] teams of
        Inl e \<Rightarrow> Inl e
      | Inr t \<Rightarrow> Inr (rename [(APA, OPA)] t))"

text \<open>Lines 42 to 53: the two left joins and the removal of the second key column.\<close>

definition joiner :: "frame \<Rightarrow> frame \<Rightarrow> frame \<Rightarrow> pyerr + frame" where
  "joiner games summary teams_opp =
     (case merge_left TEAM TEAM ''_x'' ''_y'' games summary of
        Inl e \<Rightarrow> Inl e
      | Inr g1 \<Rightarrow>
          (case merge_left OPPONENT TEAM [] ''_opp'' g1 teams_opp of
             Inl e \<Rightarrow> Inl e
           | Inr g2 \<Rightarrow> drop_columns [TEAM_OPP] g2))"

section \<open>Console output and termination\<close>

text \<open>
  What the script prints, one constructor per \<^verbatim>\<open>print\<close> call, with the values
  the line interpolates (\<open>ErrTeamData\<close> carries the two team names its text spells
  out; \<open>Rule\<close> is a line of equals signs, \<open>Title\<close> the heading of line 154), and how a
  run ends: \<^verbatim>\<open>sys.exit(n)\<close>, an exception nothing catches, or the end of the script.
  The traceback that line 110 writes to the error stream is not part of the output.
\<close>

datatype out =
    Loaded nat
  | FeaturesLine
  | ErrMissingFeatures "string list"
  | AvailableColumns "string list"
  | ModelTrained
  | ErrMissingColumn pyerr
  | ErrTraining pyerr
  | ErrTeamData string string
  | AvailSummary "cell list"
  | AvailTeams "cell list"
  | ErrRetrieving pyerr
  | Rule
  | Title
  | ScoreLine string pyfloat
  | WinnerLine string
  | MarginLine pyfloat
  | ResultLine string

datatype halt = Exited nat | Uncaught pyerr | Completed

section \<open>Trainer\<close>

text \<open>
  Lines 88 to 111. The regression belongs to scikit-learn: \<open>fit\<close> is a parameter, given
  the feature frame and the target column, and may raise. \<^verbatim>\<open>sys.exit\<close> raises
  SystemExit, which neither handler catches.
\<close>

definition training_failed :: "frame \<Rightarrow> pyerr \<Rightarrow> out list \<times> halt" where
  "training_failed games e =
     (case e of
        KeyError ks \<Rightarrow> ([ErrMissingColumn e, AvailableColumns (columns games)], Exited 1)
      | _ \<Rightarrow> ([ErrTraining e], Exited 1))"

definition trainer ::
  "(frame \<Rightarrow> cell list \<Rightarrow> pyerr + 'm) \<Rightarrow> frame \<Rightarrow> (out list \<times> halt) + (out list \<times> 'm \<times> frame)"
  where
  "trainer fit games =
     (case select_columns features games of
        Inl e \<Rightarrow> Inl (training_failed games e)
      | Inr X \<Rightarrow>
          (case get_column PTS games of
             Inl e \<Rightarrow> Inl (training_failed games e)
           | Inr y \<Rightarrow>
               let missing_features = filter (\<lambda>f. f \<notin> set (columns games)) features in
               if missing_features \<noteq> [] then
                 Inl ([ErrMissingFeatures missing_features, AvailableColumns (columns games)],
                      Exited 1)
               else
                 (case fit X y of
                    Inl e \<Rightarrow> Inl (training_failed games e)
                  | Inr model \<Rightarrow> Inr ([ModelTrained], model, X))))"

section \<open>The unused mean\<close>

text \<open>
  Line 114: \<^verbatim>\<open>X["Weighted Playoff Offense Score"].mean()\<close>. The mean skips missing
  values, is NaN when nothing is left, and raises a TypeError on a column holding text.
\<close>

fun fadd :: "pyfloat \<Rightarrow> pyfloat \<Rightarrow> pyfloat" where
  "fadd (Fin a) (Fin b) = Fin (a + b)"
| "fadd NaN _ = NaN"
| "fadd _ NaN = NaN"
| "fadd PInf NInf = NaN"
| "fadd NInf PInf = NaN"
| "fadd PInf _ = PInf"
| "fadd _ PInf = PInf"
| "fadd NInf _ = NInf"
| "fadd _ NInf = NInf"

fun fdiv_count :: "pyfloat \<Rightarrow> nat \<Rightarrow> pyfloat" where
  "fdiv_count (Fin a) n = Fin (a / real n)"
| "fdiv_count x n = x"

fun numbers_of :: "cell list \<Rightarrow> pyerr + pyfloat list" where
  "numbers_of [] = Inr []"
| "numbers_of (Str s # cs) = Inl TypeError"
| "numbers_of (Num x # cs) =
     (case numbers_of cs of
        Inl e \<Rightarrow> Inl e
      | Inr xs \<Rightarrow> Inr (if x = NaN then xs else x # xs))"

definition mean :: "cell list \<Rightarrow> pyerr + pyfloat" where
  "mean cs =
     (case numbers_of cs of
        Inl e \<Rightarrow> Inl e
      | Inr xs \<Rightarrow> Inr (if xs = [] then NaN else fdiv_count (foldl fadd (Fin 0) xs) (length xs)))"

text \<open>Whether a cell is a number (possibly the missing marker) and not a text.\<close>

fun is_num :: "cell \<Rightarrow> bool" where
  "is_num (Num x) = True"
| "is_num (Str s) = False"

section \<open>Predictor\<close>

definition NE :: string where "NE = ''New England Patriots''"
definition SEA :: string where "SEA = ''Seattle Seahawks''"

text \<open>\<^verbatim>\<open>df[df["Team"] == name].iloc[0]\<close>: the first row of the team, an IndexError
  when there is none, a KeyError when the frame has no team column.\<close>

definition find_team :: "frame \<Rightarrow> string \<Rightarrow> pyerr + row" where
  "find_team f name =
     (if TEAM \<notin> set (columns f) then Inl (KeyError [TEAM])
      else (case filter (\<lambda>r. cell_at r TEAM = Str name) (rows f) of
              [] \<Rightarrow> Inl IndexError
            | r # _ \<Rightarrow> Inr r))"

text \<open>Whether a frame has a row of the team.\<close>

definition has_team :: "frame \<Rightarrow> string \<Rightarrow> bool" where
  "has_team f name = list_ex (\<lambda>r. cell_at r TEAM = Str name) (rows f)"

text \<open>\<^verbatim>\<open>s.unique()\<close> keeps the first occurrence of each value, in order.\<close>

definition unique :: "'a list \<Rightarrow> 'a list" where
  "unique xs = rev (remdups (rev xs))"

text \<open>
  The handlers of lines 124 to 131. An exception raised inside a handler is not caught.
\<close>

definition lookup_failed :: "frame \<Rightarrow> frame \<Rightarrow> pyerr \<Rightarrow> out list \<times> halt" where
  "lookup_failed summary teams e =
     (case e of
        IndexError \<Rightarrow>
          (case get_column TEAM summary of
             Inl e' \<Rightarrow> ([ErrTeamData NE SEA], Uncaught e')
           | Inr s \<Rightarrow>
               (case get_column TEAM teams of
                  Inl e' \<Rightarrow> ([ErrTeamData NE SEA, AvailSummary (take 10 (unique s))], Uncaught e')
                | Inr t \<Rightarrow>
                    ([ErrTeamData NE SEA, AvailSummary (take 10 (unique s)),
                      AvailTeams (take 10 (unique t))], Exited 1)))
      | _ \<Rightarrow> ([ErrRetrieving e], Exited 1))"

text \<open>Lines 117 to 131: the four rows, in the order the script looks them up.\<close>

definition lookup_teams :: "frame \<Rightarrow> frame \<Rightarrow> (out list \<times> halt) + (row \<times> row \<times> row \<times> row)" where
  "lookup_teams summary teams =
     (case find_team summary NE of
        Inl e \<Rightarrow> Inl (lookup_failed summary teams e)
      | Inr pat_off \<Rightarrow>
     (case find_team teams SEA of
        Inl e \<Rightarrow> Inl (lookup_failed summary teams e)
      | Inr sea_def \<Rightarrow>
     (case find_team summary SEA of
        Inl e \<Rightarrow> Inl (lookup_failed summary teams e)
      | Inr sea_off \<Rightarrow>
     (case find_team teams NE of
        Inl e \<Rightarrow> Inl (lookup_failed summary teams e)
      | Inr pat_def \<Rightarrow> Inr (pat_off, sea_def, sea_off, pat_def)))))"

text \<open>\<^verbatim>\<open>row[c]\<close> on a row taken out of a frame: a KeyError without the label.\<close>

definition item :: "row \<Rightarrow> string \<Rightarrow> pyerr + cell" where
  "item r c = (case map_of r c of None \<Rightarrow> Inl (KeyError [c]) | Some v \<Rightarrow> Inr v)"

text \<open>Lines 134 to 139.\<close>

definition get_weighted_score ::
  "(string \<Rightarrow> pyfloat option) \<Rightarrow> row \<Rightarrow> row \<Rightarrow> pyerr + cell" where
  "get_weighted_score parse team_off team_def_data =
     (case item team_off WPOS of
        Inl e \<Rightarrow> Inl e
      | Inr v \<Rightarrow>
          let score = to_numeric parse v in
          if isna score then item team_def_data APS else Inr score)"

text \<open>\<^verbatim>\<open>pd.DataFrame(dicts, columns=cols)\<close>: the columns are \<open>cols\<close>, in that order.\<close>

definition DataFrame :: "row list \<Rightarrow> string list \<Rightarrow> frame" where
  "DataFrame dicts cols =
     \<lparr>columns = cols, rows = map (\<lambda>d. map (\<lambda>c. (c, cell_at d c)) cols) dicts\<rparr>"

text \<open>Lines 143 to 148 and 160 to 165: the one-row frame of a team against an opponent.\<close>

definition matchup_frame :: "cell \<Rightarrow> row \<Rightarrow> row \<Rightarrow> pyerr + frame" where
  "matchup_frame weighted_score off opp_def =
     (case item off OM of
        Inl e \<Rightarrow> Inl e
      | Inr momentum \<Rightarrow>
     (case item opp_def APA of
        Inl e \<Rightarrow> Inl e
      | Inr allowed \<Rightarrow>
     (case item opp_def DTR of
        Inl e \<Rightarrow> Inl e
      | Inr tier \<Rightarrow>
          Inr (DataFrame [[(WPOS, weighted_score), (OM, momentum), (OPA, allowed), (ODT, tier)]]
                 features))))"

text \<open>The shape of the frame the model was trained on: the four feature columns, in order,
  and here one row.\<close>

definition feature_shaped :: "frame \<Rightarrow> bool" where
  "feature_shaped df =
     (columns df = features \<and> length (rows df) = 1
      \<and> list_all (\<lambda>r. map fst r = features) (rows df))"

section \<open>Reporter\<close>

text \<open>The comparisons and the subtraction of floats: every comparison with NaN is false.\<close>

fun fgt :: "pyfloat \<Rightarrow> pyfloat \<Rightarrow> bool" where
  "fgt (Fin a) (Fin b) = (a > b)"
| "fgt NaN _ = False"
| "fgt _ NaN = False"
| "fgt PInf PInf = False"
| "fgt PInf _ = True"
| "fgt _ PInf = False"
| "fgt NInf _ = False"
| "fgt _ NInf = True"

fun fneg :: "pyfloat \<Rightarrow> pyfloat" where
  "fneg (Fin a) = Fin (- a)"
| "fneg PInf = NInf"
| "fneg NInf = PInf"
| "fneg NaN = NaN"

definition fsub :: "pyfloat \<Rightarrow> pyfloat \<Rightarrow> pyfloat" where
  "fsub a b = fadd a (fneg b)"

definition feq :: "pyfloat \<Rightarrow> pyfloat \<Rightarrow> bool" where
  "feq a b = (a = b \<and> a \<noteq> NaN)"

definition fge :: "pyfloat \<Rightarrow> pyfloat \<Rightarrow> bool" where
  "fge a b = (fgt a b \<or> feq a b)"

text \<open>Lines 174 to 182.\<close>

definition determine_winner :: "pyfloat \<Rightarrow> pyfloat \<Rightarrow> string \<times> pyfloat" where
  "determine_winner pat_pred sea_pred =
     (if fgt pat_pred sea_pred then (NE, fsub pat_pred sea_pred)
      else if fgt sea_pred pat_pred then (SEA, fsub sea_pred pat_pred)
      else (''Tie'', Fin 0))"

text \<open>Lines 184 to 190.\<close>

definition report :: "string \<times> pyfloat \<Rightarrow> out list" where
  "report wm =
     (case wm of (winner, margin) \<Rightarrow>
        [Rule]
        @ (if winner \<noteq> ''Tie'' then [WinnerLine winner, MarginLine margin]
           else [ResultLine winner])
        @ [Rule])"

section \<open>The prediction stage and the whole script\<close>

text \<open>
  Lines 117 to 190, for a fitted model. \<open>predict\<close> is scikit-learn's, a parameter: it is
  given the model and a one-row frame and may raise. Nothing catches an exception after
  line 131. \<open>mean_weighted_score\<close> is the variable of line 114, in scope here as every
  global of the script is.
\<close>

definition predict_team ::
  "(string \<Rightarrow> pyfloat option) \<Rightarrow> ('m \<Rightarrow> frame \<Rightarrow> pyerr + pyfloat) \<Rightarrow> 'm \<Rightarrow> frame
     \<Rightarrow> string \<Rightarrow> row \<Rightarrow> row \<Rightarrow> pyerr + pyfloat" where
  "predict_team parse predict model teams name off opp_def =
     (case find_team teams name of
        Inl e \<Rightarrow> Inl e
      | Inr own_def \<Rightarrow>
     (case get_weighted_score parse off own_def of
        Inl e \<Rightarrow> Inl e
      | Inr weighted_score \<Rightarrow>
     (case matchup_frame weighted_score off opp_def of
        Inl e \<Rightarrow> Inl e
      | Inr df \<Rightarrow> predict model df)))"

definition predictor ::
  "(string \<Rightarrow> pyfloat option) \<Rightarrow> ('m \<Rightarrow> frame \<Rightarrow> pyerr + pyfloat) \<Rightarrow> pyfloat \<Rightarrow> 'm
     \<Rightarrow> frame \<Rightarrow> frame \<Rightarrow> out list \<times> halt" where
  "predictor parse predict mean_weighted_score model summary teams =
     (case lookup_teams summary teams of
        Inl stopped \<Rightarrow> stopped
      | Inr (pat_off, sea_def, sea_off, pat_def) \<Rightarrow>
     (case predict_team parse predict model teams NE pat_off sea_def of
        Inl e \<Rightarrow> ([], Uncaught e)
      | Inr pat_pred \<Rightarrow>
     (case predict_team parse predict model teams SEA sea_off pat_def of
        Inl e \<Rightarrow> ([Rule, Title, Rule], Uncaught e)
      | Inr sea_pred \<Rightarrow>
          ([Rule, Title, Rule, ScoreLine NE pat_pred, ScoreLine SEA sea_pred]
             @ report (determine_winner pat_pred sea_pred), Completed))))"

text \<open>
  Lines 25 to 190, from the three frames read from the files (the checks that the files
  and scikit-learn are there are not modelled). An exception before line 88 is caught by
  nothing.
\<close>

definition add_output :: "out list \<Rightarrow> out list \<times> halt \<Rightarrow> out list \<times> halt" where
  "add_output printed res = (printed @ fst res, snd res)"

definition main ::
  "(string \<Rightarrow> pyfloat option) \<Rightarrow> (frame \<Rightarrow> cell list \<Rightarrow> pyerr + 'm)
     \<Rightarrow> ('m \<Rightarrow> frame \<Rightarrow> pyerr + pyfloat) \<Rightarrow> frame \<Rightarrow> frame \<Rightarrow> frame \<Rightarrow> out list \<times> halt" where
  "main parse fit predict games0 summary0 teams =
     (let games = rename_games games0; summary = rename_summary summary0 in
      case teams_opp_of teams of
        Inl e \<Rightarrow> ([], Uncaught e)
      | Inr teams_opp \<Rightarrow>
     (case joiner games summary teams_opp of
        Inl e \<Rightarrow> ([], Uncaught e)
      | Inr joined \<Rightarrow>
     (case cleaner parse joined of
        Inl e \<Rightarrow> ([], Uncaught e)
      | Inr games \<Rightarrow>
          add_output [Loaded (length (rows games)), FeaturesLine]
     (case trainer fit games of
        Inl stopped \<Rightarrow> stopped
      | Inr (printed, model, X) \<Rightarrow>
          add_output printed
     (case get_column WPOS X of
        Inl e \<Rightarrow> ([], Uncaught e)
      | Inr scores \<Rightarrow>
     (case mean scores of
        Inl e \<Rightarrow> ([], Uncaught e)
      | Inr mean_weighted_score \<Rightarrow>
          predictor parse predict mean_weighted_score model summary teams))))))"

text \<open>
  The script with line 114 removed, for the comparison with \<open>main\<close>: the prediction stage
  is given no mean (NaN stands for the variable that is not there).
\<close>

definition main_without_mean ::
  "(string \<Rightarrow> pyfloat option) \<Rightarrow> (frame \<Rightarrow> cell list \<Rightarrow> pyerr + 'm)
     \<Rightarrow> ('m \<Rightarrow> frame \<Rightarrow> pyerr + pyfloat) \<Rightarrow> frame \<Rightarrow> frame \<Rightarrow> frame \<Rightarrow> out list \<times> halt" where
  "main_without_mean parse fit predict games0 summary0 teams =
     (let games = rename_games games0; summary = rename_summary summary0 in
      case teams_opp_of teams of
        Inl e \<Rightarrow> ([], Uncaught e)
      | Inr teams_opp \<Rightarrow>
     (case joiner games summary teams_opp of
        Inl e \<Rightarrow> ([], Uncaught e)
      | Inr joined \<Rightarrow>
     (case cleaner parse joined of
        Inl e \<Rightarrow> ([], Uncaught e)
      | Inr games \<Rightarrow>
          add_output [Loaded (length (rows games)), FeaturesLine]
     (case trainer fit games of
        Inl stopped \<Rightarrow> stopped
      | Inr (printed, model, X) \<Rightarrow>
          add_output printed (predictor parse predict NaN model summary teams)))))"

section \<open>Sample data\<close>

text \<open>A small parser and small frames, on which the theorems below are instantiated.\<close>

definition parse_sample :: "string \<Rightarrow> pyfloat option" where
  "parse_sample = map_of [(''24.5'', Fin 24.5), (''31'', Fin 31)]"

definition sample_joined :: frame where
  "sample_joined =
     \<lparr>columns = [TEAM, OPPONENT, PTS, ODT, WPOS, OM, OPA],
      rows =
        [[(TEAM, Str NE), (OPPONENT, Str SEA), (PTS, Num (Fin 27)), (ODT, Num (Fin 1)),
          (WPOS, Str ''24.5''), (OM, Num (Fin 2)), (OPA, Num (Fin 17))],
         [(TEAM, Str SEA), (OPPONENT, Str NE), (PTS, Num NaN), (ODT, Num (Fin 2)),
          (WPOS, Num (Fin 31)), (OM, Num (Fin 3)), (OPA, Num (Fin 20))],
         [(TEAM, Str NE), (OPPONENT, Str SEA), (PTS, Num (Fin 20)), (ODT, Num (Fin 1)),
          (WPOS, Str ''--''), (OM, Num (Fin 2)), (OPA, Num (Fin 17))],
         [(TEAM, Str SEA), (OPPONENT, Str NE), (PTS, Num (Fin 13)), (ODT, Num (Fin 2)),
          (WPOS, Str ''31''), (OM, Num NaN), (OPA, Num (Fin 20))]]\<rparr>"

definition sample_cleaned :: frame where
  "sample_cleaned =
     \<lparr>columns = [TEAM, OPPONENT, PTS, ODT, WPOS, OM, OPA],
      rows =
        [[(TEAM, Str NE), (OPPONENT, Str SEA), (PTS, Num (Fin 27)), (ODT, Num (Fin 1)),
          (WPOS, Num (Fin 24.5)), (OM, Num (Fin 2)), (OPA, Num (Fin 17))],
         [(TEAM, Str SEA), (OPPONENT, Str NE), (PTS, Num NaN), (ODT, Num (Fin 2)),
          (WPOS, Num (Fin 31)), (OM, Num (Fin 3)), (OPA, Num (Fin 20))]]\<rparr>"

definition sample_games0 :: frame where
  "sample_games0 =
     \<lparr>columns = [TEAM, OPPONENT, ''Game #'', ''Points Scored'', ''Opponent Defensive Tier''],
      rows =
        [[(TEAM, Str NE), (OPPONENT, Str SEA), (''Game #'', Num (Fin 1)),
          (''Points Scored'', Num (Fin 27)), (''Opponent Defensive Tier'', Num (Fin 1))],
         [(TEAM, Str SEA), (OPPONENT, Str NE), (''Game #'', Num (Fin 1)),
          (''Points Scored'', Num (Fin 24)), (''Opponent Defensive Tier'', Num (Fin 2))],
         [(TEAM, Str NE), (OPPONENT, Str ''Denver Broncos''), (''Game #'', Num (Fin 2)),
          (''Points Scored'', Num (Fin 30)), (''Opponent Defensive Tier'', Num (Fin 3))]]\<rparr>"

definition sample_summary0 :: frame where
  "sample_summary0 =
     \<lparr>columns = [TEAM, ''Tier 1 Avg Points'', WPOS, OM],
      rows =
        [[(TEAM, Str NE), (''Tier 1 Avg Points'', Num (Fin 28)), (WPOS, Str ''24.5''),
          (OM, Num (Fin 2))],
         [(TEAM, Str SEA), (''Tier 1 Avg Points'', Num (Fin 21)), (WPOS, Str ''--''),
          (OM, Num (Fin 3))]]\<rparr>"

definition sample_teams :: frame where
  "sample_teams =
     \<lparr>columns = [TEAM, APA, APS, DTR],
      rows =
        [[(TEAM, Str NE), (APA, Num (Fin 20)), (APS, Num (Fin 26)), (DTR, Num (Fin 2))],
         [(TEAM, Str SEA), (APA, Num (Fin 17)), (APS, Num (Fin 23)), (DTR, Num (Fin 1))]]\<rparr>"

definition sample_games :: frame where
  "sample_games =
     \<lparr>columns = [TEAM, OPPONENT, ''game_num'', PTS, ODT],
      rows =
        [[(TEAM, Str NE), (OPPONENT, Str SEA), (''game_num'', Num (Fin 1)),
          (PTS, Num (Fin 27)), (ODT, Num (Fin 1))],
         [(TEAM, Str SEA), (OPPONENT, Str NE), (''game_num'', Num (Fin 1)),
          (PTS, Num (Fin 24)), (ODT, Num (Fin 2))],
         [(TEAM, Str NE), (OPPONENT, Str ''Denver Broncos''), (''game_num'', Num (Fin 2)),
          (PTS, Num (Fin 30)), (ODT, Num (Fin 3))]]\<rparr>"

definition sample_summary :: frame where
  "sample_summary =
     \<lparr>columns = [TEAM, ''tier1_avg'', WPOS, OM],
      rows =
        [[(TEAM, Str NE), (''tier1_avg'', Num (Fin 28)), (WPOS, Str ''24.5''),
          (OM, Num (Fin 2))],
         [(TEAM, Str SEA), (''tier1_avg'', Num (Fin 21)), (WPOS, Str ''--''),
          (OM, Num (Fin 3))]]\<rparr>"

definition sample_teams_opp :: frame where
  "sample_teams_opp =
     \<lparr>columns = [TEAM, OPA],
      rows =
        [[(TEAM, Str NE), (OPA, Num (Fin 20))],
         [(TEAM, Str SEA), (OPA, Num (Fin 17))]]\<rparr>"

definition sample_joiner_result :: frame where
  "sample_joiner_result =
     \<lparr>columns = [TEAM, OPPONENT, ''game_num'', PTS, ODT, ''tier1_avg'', WPOS, OM, OPA],
      rows =
        [[(TEAM, Str NE), (OPPONENT, Str SEA), (''game_num'', Num (Fin 1)),
          (PTS, Num (Fin 27)), (ODT, Num (Fin 1)), (''tier1_avg'', Num (Fin 28)),
          (WPOS, Str ''24.5''), (OM, Num (Fin 2)), (OPA, Num (Fin 17))],
         [(TEAM, Str SEA), (OPPONENT, Str NE), (''game_num'', Num (Fin 1)),
          (PTS, Num (Fin 24)), (ODT, Num (Fin 2)), (''tier1_avg'', Num (Fin 21)),
          (WPOS, Str ''--''), (OM, Num (Fin 3)), (OPA, Num (Fin 20))],
         [(TEAM, Str NE), (OPPONENT, Str ''Denver Broncos''), (''game_num'', Num (Fin 2)),
          (PTS, Num (Fin 30)), (ODT, Num (Fin 3)), (''tier1_avg'', Num (Fin 28)),
          (WPOS, Str ''24.5''), (OM, Num (Fin 2)), (OPA, Num NaN)]]\<rparr>"

fun finite_cell :: "cell \<Rightarrow> bool" where
  "finite_cell (Num (Fin x)) = True"
| "finite_cell _ = False"

fun cell_value :: "cell \<Rightarrow> real" where
  "cell_value (Num (Fin x)) = x"
| "cell_value _ = 0"

definition sample_fit :: "frame \<Rightarrow> cell list \<Rightarrow> pyerr + (real \<times> real list)" where
  "sample_fit X y =
     (if rows X = [] \<or> \<not> list_all finite_cell y
         \<or> \<not> list_all (\<lambda>r. list_all finite_cell (map snd r)) (rows X)
      then Inl ValueError
      else Inr (0, [1, 1, 0, 0]))"

definition sample_predict :: "real \<times> real list \<Rightarrow> frame \<Rightarrow> pyerr + pyfloat" where
  "sample_predict m df =
     (case rows df of
        [] \<Rightarrow> Inl ValueError
      | r # _ \<Rightarrow>
          if list_all (\<lambda>r. list_all finite_cell (map snd r)) (rows df)
          then Inr (Fin (fst m + sum_list (map2 (*) (snd m) (map (cell_value \<circ> snd) r))))
          else Inl ValueError)"

definition sample_row :: row where
  "sample_row =
     [(TEAM, Str SEA), (OPPONENT, Str NE), (PTS, Num NaN), (ODT, Num (Fin 2)),
      (WPOS, Num (Fin 31)), (OM, Num (Fin 3)), (OPA, Num (Fin 20))]"

definition sample_summary_no_momentum0 :: frame where
  "sample_summary_no_momentum0 =
     \<lparr>columns = [TEAM, ''Tier 1 Avg Points'', WPOS],
      rows =
        [[(TEAM, Str NE), (''Tier 1 Avg Points'', Num (Fin 28)), (WPOS, Str ''24.5'')],
         [(TEAM, Str SEA), (''Tier 1 Avg Points'', Num (Fin 21)), (WPOS, Str ''--'')]]\<rparr>"

definition sample_summary_no_momentum :: frame where
  "sample_summary_no_momentum =
     \<lparr>columns = [TEAM, ''tier1_avg'', WPOS],
      rows =
        [[(TEAM, Str NE), (''tier1_avg'', Num (Fin 28)), (WPOS, Str ''24.5'')],
         [(TEAM, Str SEA), (''tier1_avg'', Num (Fin 21)), (WPOS, Str ''--'')]]\<rparr>"

definition sample_joined_no_momentum :: frame where
  "sample_joined_no_momentum =
     \<lparr>columns = [TEAM, OPPONENT, ''game_num'', PTS, ODT, ''tier1_avg'', WPOS, OPA],
      rows =
        [[(TEAM, Str NE), (OPPONENT, Str SEA), (''game_num'', Num (Fin 1)),
          (PTS, Num (Fin 27)), (ODT, Num (Fin 1)), (''tier1_avg'', Num (Fin 28)),
          (WPOS, Str ''24.5''), (OPA, Num (Fin 17))],
         [(TEAM, Str SEA), (OPPONENT, Str NE), (''game_num'', Num (Fin 1)),
          (PTS, Num (Fin 24)), (ODT, Num (Fin 2)), (''tier1_avg'', Num (Fin 21)),
          (WPOS, Str ''--''), (OPA, Num (Fin 20))],
         [(TEAM, Str NE), (OPPONENT, Str ''Denver Broncos''), (''game_num'', Num (Fin 2)),
          (PTS, Num (Fin 30)), (ODT, Num (Fin 3)), (''tier1_avg'', Num (Fin 28)),
          (WPOS, Str ''24.5''), (OPA, Num NaN)]]\<rparr>"

definition sample_teams_no_sea :: frame where
  "sample_teams_no_sea =
     \<lparr>columns = [TEAM, APA, APS, DTR],
      rows =
        [[(TEAM, Str NE), (APA, Num (Fin 20)), (APS, Num (Fin 26)), (DTR, Num (Fin 2))],
         [(TEAM, Str ''Denver Broncos''), (APA, Num (Fin 22)), (APS, Num (Fin 19)),
          (DTR, Num (Fin 3))],
         [(TEAM, Str NE), (APA, Num (Fin 20)), (APS, Num (Fin 26)), (DTR, Num (Fin 2))]]\<rparr>"

definition sample_training :: frame where
  "sample_training =
     \<lparr>columns = [TEAM, OPPONENT, ''game_num'', PTS, ODT, ''tier1_avg'', WPOS, OM, OPA],
      rows =
        [[(TEAM, Str NE), (OPPONENT, Str SEA), (''game_num'', Num (Fin 1)),
          (PTS, Num (Fin 27)), (ODT, Num (Fin 1)), (''tier1_avg'', Num (Fin 28)),
          (WPOS, Num (Fin 24.5)), (OM, Num (Fin 2)), (OPA, Num (Fin 17))]]\<rparr>"

definition sample_X :: frame where
  "sample_X =
     \<lparr>columns = features,
      rows = [[(WPOS, Num (Fin 24.5)), (OM, Num (Fin 2)), (OPA, Num (Fin 17)),
               (ODT, Num (Fin 1))]]\<rparr>"

definition sample_output :: "out list" where
  "sample_output =
     [Loaded 1, FeaturesLine, ModelTrained, Rule, Title, Rule, ScoreLine NE (Fin 26.5),
      ScoreLine SEA (Fin 26), Rule, WinnerLine NE, MarginLine (Fin 0.5), Rule]"

section \<open>Properties of the cleaner\<close>

lemmas label_defs = TEAM_def OPPONENT_def PTS_def ODT_def WPOS_def OM_def OPA_def
  TEAM_OPP_def APA_def APS_def DTR_def NE_def SEA_def

lemma to_numeric_idem: "to_numeric parse (to_numeric parse c) = to_numeric parse c"
  by (cases c) (auto split: option.splits)

lemma map_of_update_cell:
  "map_of (update_cell c f r) k = (if k = c then map_option f (map_of r k) else map_of r k)"
  by (induction r) (auto simp: update_cell_def)

lemma cell_at_coerce_row:
  "cell_at (coerce_row parse r) k = (if k = WPOS then to_numeric parse (cell_at r k) else cell_at r k)"
  by (auto simp: coerce_row_def cell_at_def map_of_update_cell split: option.splits)

lemma update_cell_idem:
  "(\<And>v. f (f v) = f v) \<Longrightarrow> update_cell c f (update_cell c f r) = update_cell c f r"
  by (induction r) (auto simp: update_cell_def)

lemma coerce_row_idem: "coerce_row parse (coerce_row parse r) = coerce_row parse r"
  by (simp add: coerce_row_def update_cell_idem to_numeric_idem)

lemma label_neq:
  "OM \<noteq> WPOS" "OPA \<noteq> WPOS" "ODT \<noteq> WPOS" "PTS \<noteq> WPOS"
  "WPOS \<noteq> OM" "WPOS \<noteq> OPA" "WPOS \<noteq> ODT" "WPOS \<noteq> PTS"
  by (simp_all add: WPOS_def OM_def OPA_def ODT_def PTS_def)

lemma complete_coerce_row:
  "complete features (coerce_row parse r) \<longleftrightarrow>
     \<not> isna (to_numeric parse (cell_at r WPOS)) \<and> \<not> isna (cell_at r OM)
     \<and> \<not> isna (cell_at r OPA) \<and> \<not> isna (cell_at r ODT)"
  by (simp add: complete_def features_def cell_at_coerce_row label_neq)

lemma absent_Nil_iff: "absent cs f = [] \<longleftrightarrow> set cs \<subseteq> set (columns f)"
  by (auto simp: absent_def filter_empty_conv)

lemma absent_rows_update: "absent cs (f\<lparr>rows := rs\<rparr>) = absent cs f"
  by (simp add: absent_def)

lemma cleaner_rows:
  assumes "set features \<subseteq> set (columns joined)"
  shows "cleaner parse joined =
     Inr (joined\<lparr>rows := map (coerce_row parse)
        (filter (\<lambda>r. \<not> isna (to_numeric parse (cell_at r WPOS)) \<and> \<not> isna (cell_at r OM)
             \<and> \<not> isna (cell_at r OPA) \<and> \<not> isna (cell_at r ODT)) (rows joined))\<rparr>)"
proof -
  have w: "WPOS \<in> set (columns joined)" using assms by (auto simp: features_def)
  have a: "absent features joined = []" using assms by (simp add: absent_Nil_iff)
  show ?thesis
    using w a
    by (simp add: cleaner_def dropna_def absent_rows_update filter_map comp_def complete_coerce_row)
qed

lemma cleaner_Inr_columns:
  assumes "cleaner parse joined = Inr cleaned"
  shows "set features \<subseteq> set (columns joined)"
  using assms
  by (auto simp: cleaner_def dropna_def absent_rows_update absent_Nil_iff split: if_splits)

text \<open>A table that lacks a feature column makes the cleaner raise a KeyError.\<close>

lemma cleaner_missing_column:
  assumes "\<not> set features \<subseteq> set (columns joined)"
  shows "\<exists>ks. cleaner parse joined = Inl (KeyError ks)"
proof (cases "WPOS \<in> set (columns joined)")
  case False
  then show ?thesis by (simp add: cleaner_def)
next
  case True
  have "absent features joined \<noteq> []"
    using assms by (simp add: absent_Nil_iff)
  then show ?thesis
    using True by (simp add: cleaner_def dropna_def absent_rows_update)
qed


lemma sample_labels:
  "set features \<subseteq> set (columns sample_joined)"
  by (simp add: features_def sample_joined_def)


text \<open>
  Claim C5. Cleaning is idempotent: cleaning the cleaned table again gives the cleaned
  table back, with the same rows and so the same row count.
\<close>

theorem cleaner_idempotent:
  assumes "cleaner parse joined = Inr cleaned"
  shows "cleaner parse cleaned = Inr cleaned \<and> length (rows cleaned) \<le> length (rows joined)"
proof -
  have cols: "set features \<subseteq> set (columns joined)"
    using assms by (rule cleaner_Inr_columns)
  let ?keep = "\<lambda>r. \<not> isna (to_numeric parse (cell_at r WPOS)) \<and> \<not> isna (cell_at r OM)
             \<and> \<not> isna (cell_at r OPA) \<and> \<not> isna (cell_at r ODT)"
  have c: "cleaned = joined\<lparr>rows := map (coerce_row parse) (filter ?keep (rows joined))\<rparr>"
    using cleaner_rows [OF cols, of parse] assms by simp
  have cols': "set features \<subseteq> set (columns cleaned)"
    using cols c by simp
  have keep: "?keep (coerce_row parse r) = ?keep r" for r
    by (simp add: cell_at_coerce_row label_neq to_numeric_idem)
  have "map (coerce_row parse) (filter ?keep (rows cleaned)) = rows cleaned"
    unfolding c by (simp add: filter_map comp_def keep coerce_row_idem)
  then have "cleaner parse cleaned = Inr cleaned"
    using cleaner_rows [OF cols', of parse] by simp
  moreover have "length (rows cleaned) \<le> length (rows joined)"
    unfolding c by simp
  ultimately show ?thesis by simp
qed

lemma sample_cleaner: "cleaner parse_sample sample_joined = Inr sample_cleaned"
  using cleaner_rows [OF sample_labels, of parse_sample]
  by (simp add: sample_joined_def sample_cleaned_def
      parse_sample_def coerce_row_def update_cell_def cell_at_def label_defs)

theorem cleaner_idempotent_witness:
  "cleaner parse_sample sample_joined = Inr sample_cleaned
   \<and> cleaner parse_sample sample_cleaned = Inr sample_cleaned"
  using cleaner_idempotent [OF sample_cleaner] sample_cleaner by simp

text \<open>
  Claim C10. Cleaning does not look at the target: a game row whose four features are all
  present after the coercion is kept even when its points scored are missing, its target
  is still missing in the cleaned table, and the trainer hands the target column, with
  that missing value in it, to the fitting routine.
\<close>

theorem cleaner_keeps_missing_target:
  assumes "cleaner parse joined = Inr cleaned"
    and "PTS \<in> set (columns joined)"
    and "r \<in> set (rows joined)"
    and "\<not> isna (to_numeric parse (cell_at r WPOS))" "\<not> isna (cell_at r OM)"
        "\<not> isna (cell_at r OPA)" "\<not> isna (cell_at r ODT)"
    and "isna (cell_at r PTS)"
  shows "coerce_row parse r \<in> set (rows cleaned)
         \<and> isna (cell_at (coerce_row parse r) PTS)
         \<and> (\<exists>X y. select_columns features cleaned = Inr X \<and> get_column PTS cleaned = Inr y
               \<and> Num NaN \<in> set y
               \<and> trainer fit cleaned =
                   (case fit X y of Inl e \<Rightarrow> Inl (training_failed cleaned e)
                    | Inr model \<Rightarrow> Inr ([ModelTrained], model, X)))"
proof -
  have cols: "set features \<subseteq> set (columns joined)"
    using assms(1) by (rule cleaner_Inr_columns)
  let ?keep = "\<lambda>r. \<not> isna (to_numeric parse (cell_at r WPOS)) \<and> \<not> isna (cell_at r OM)
             \<and> \<not> isna (cell_at r OPA) \<and> \<not> isna (cell_at r ODT)"
  have c: "cleaned = joined\<lparr>rows := map (coerce_row parse) (filter ?keep (rows joined))\<rparr>"
    using cleaner_rows [OF cols, of parse] assms(1) by simp
  have kept: "coerce_row parse r \<in> set (rows cleaned)"
    unfolding c using assms(3-7) by simp
  have target: "cell_at (coerce_row parse r) PTS = cell_at r PTS"
    by (simp add: cell_at_coerce_row label_neq)
  have na: "isna (cell_at (coerce_row parse r) PTS)"
    using assms(8) target by simp
  then have nan: "cell_at (coerce_row parse r) PTS = Num NaN"
    by (cases "cell_at (coerce_row parse r) PTS" rule: isna.cases) simp_all
  have ccols: "columns cleaned = columns joined" unfolding c by simp
  have ab: "absent features cleaned = []"
    using cols ccols by (simp add: absent_Nil_iff)
  have nomiss: "filter (\<lambda>f. f \<notin> set (columns cleaned)) features = []"
    using ab by (simp add: absent_def)
  define X where "X = \<lparr>columns = features,
     rows = map (\<lambda>r. map (\<lambda>c. (c, cell_at r c)) features) (rows cleaned)\<rparr>"
  define y where "y = map (\<lambda>r. cell_at r PTS) (rows cleaned)"
  have sx: "select_columns features cleaned = Inr X"
    using ab by (simp add: select_columns_def X_def)
  have gy: "get_column PTS cleaned = Inr y"
    using assms(2) ccols by (simp add: get_column_def y_def)
  have iny: "Num NaN \<in> set y"
    unfolding y_def using kept nan by force
  have tr: "trainer fit cleaned =
      (case fit X y of Inl e \<Rightarrow> Inl (training_failed cleaned e)
       | Inr model \<Rightarrow> Inr ([ModelTrained], model, X))"
    unfolding trainer_def sx gy using nomiss by (simp add: Let_def)
  show ?thesis using kept na sx gy iny tr by blast
qed

lemma sample_row_facts:
  "PTS \<in> set (columns sample_joined)" "sample_row \<in> set (rows sample_joined)"
  "\<not> isna (to_numeric parse_sample (cell_at sample_row WPOS))" "\<not> isna (cell_at sample_row OM)"
  "\<not> isna (cell_at sample_row OPA)" "\<not> isna (cell_at sample_row ODT)"
  "isna (cell_at sample_row PTS)"
  by (simp_all add: sample_joined_def sample_row_def cell_at_def label_defs)

theorem cleaner_keeps_missing_target_witness:
  "sample_row \<in> set (rows sample_joined)
   \<and> isna (cell_at sample_row PTS)
   \<and> cleaner parse_sample sample_joined = Inr sample_cleaned
   \<and> coerce_row parse_sample sample_row \<in> set (rows sample_cleaned)
   \<and> isna (cell_at (coerce_row parse_sample sample_row) PTS)
   \<and> trainer sample_fit sample_cleaned = Inl ([ErrTraining ValueError], Exited 1)"
proof -
  from cleaner_keeps_missing_target [OF sample_cleaner sample_row_facts, of sample_fit]
  obtain X y where kept: "coerce_row parse_sample sample_row \<in> set (rows sample_cleaned)"
    and na: "isna (cell_at (coerce_row parse_sample sample_row) PTS)"
    and y: "Num NaN \<in> set y"
    and tr: "trainer sample_fit sample_cleaned =
               (case sample_fit X y of Inl e \<Rightarrow> Inl (training_failed sample_cleaned e)
                | Inr model \<Rightarrow> Inr ([ModelTrained], model, X))"
    by blast
  have "\<not> finite_cell (Num NaN)" by simp
  with y have "\<not> list_all finite_cell y"
    unfolding list_all_iff by blast
  then have "sample_fit X y = Inl ValueError"
    by (simp add: sample_fit_def)
  then have "trainer sample_fit sample_cleaned = Inl ([ErrTraining ValueError], Exited 1)"
    using tr by (simp add: training_failed_def)
  then show ?thesis
    using kept na sample_cleaner sample_row_facts by simp
qed

section \<open>Properties of the joiner\<close>

lemma sample_rename_games: "rename_games sample_games0 = sample_games"
  by (simp add: rename_games_def rename_def rename_label_def sample_games0_def sample_games_def
      label_defs)

lemma sample_rename_summary: "rename_summary sample_summary0 = sample_summary"
  by (simp add: rename_summary_def rename_def rename_label_def sample_summary0_def
      sample_summary_def label_defs)

lemma sample_teams_opp_of: "teams_opp_of sample_teams = Inr sample_teams_opp"
  by (simp add: teams_opp_of_def select_columns_def absent_def rename_def rename_label_def
      cell_at_def sample_teams_def sample_teams_opp_def label_defs)

lemma sample_joiner: "joiner sample_games sample_summary sample_teams_opp = Inr sample_joiner_result"
  by (simp add: joiner_def merge_left_def drop_columns_def absent_def right_labels_def
      left_label_def right_label_def key_mismatch_def text_column_def number_column_def left_part_def join_row_def cell_at_def Let_def
      sample_games_def sample_summary_def sample_teams_opp_def sample_joiner_result_def label_defs)

lemma partners_le1:
  "distinct (map f xs) \<Longrightarrow> length (filter (\<lambda>x. f x = k) xs) \<le> 1"
proof (induction xs)
  case Nil
  then show ?case by simp
next
  case (Cons x xs)
  show ?case
  proof (cases "f x = k")
    case True
    with Cons.prems have "\<forall>y\<in>set xs. f y \<noteq> k" by (auto simp: image_iff)
    then have "filter (\<lambda>x. f x = k) xs = []" by (simp add: filter_empty_conv)
    with True show ?thesis by simp
  next
    case False
    with Cons show ?thesis by simp
  qed
qed

lemma join_row_single:
  assumes "length partners \<le> 1"
  shows "join_row lname rname rcols lr partners =
     [left_part lname lr
        @ map (\<lambda>c. (rname c, (case partners of [] \<Rightarrow> Num NaN | rr # _ \<Rightarrow> cell_at rr c))) rcols]"
  using assms by (cases partners) (auto simp: join_row_def)

lemma concat_singletons: "concat (map (\<lambda>x. [h x]) xs) = map h xs"
  by (induction xs) auto

lemma cell_at_append_left:
  assumes "c \<in> fst ` set l"
  shows "cell_at (l @ r) c = cell_at l c"
proof -
  from assms obtain v where "map_of l c = Some v"
    by (metis map_of_eq_None_iff not_Some_eq)
  then show ?thesis by (simp add: cell_at_def map_add_def)
qed

lemma cell_at_append_right:
  assumes "c \<notin> fst ` set l"
  shows "cell_at (l @ r) c = cell_at r c"
proof -
  from assms have "map_of l c = None" by (simp add: map_of_eq_None_iff)
  then show ?thesis by (simp add: cell_at_def map_add_def)
qed


lemma merge_left_Inr:
  assumes "merge_left lk rk ls rs left right = Inr g"
  shows "g = \<lparr>columns = map (left_label ls (right_labels lk rk right)) (columns left)
                     @ map (right_label rs (columns left)) (right_labels lk rk right),
          rows = concat (map (\<lambda>lr.
                    join_row (left_label ls (right_labels lk rk right))
                      (right_label rs (columns left)) (right_labels lk rk right) lr
                      (filter (\<lambda>rr. cell_at rr rk = cell_at lr lk) (rows right)))
                  (rows left))\<rparr>"
  using assms by (auto simp: merge_left_def Let_def split: if_splits)

lemma joined_rows_unique:
  assumes "distinct (map (\<lambda>r. cell_at r rk) (rows right))"
  shows "concat (map (\<lambda>lr.
                    join_row (left_label ls (right_labels lk rk right))
                      (right_label rs (columns left)) (right_labels lk rk right) lr
                      (filter (\<lambda>rr. cell_at rr rk = cell_at lr lk) (rows right)))
                  (rows left))
         = map (joined_row lk rk ls rs left right) (rows left)"
proof -
  have "join_row ln rn rc lr (filter (\<lambda>rr. cell_at rr rk = cell_at lr lk) (rows right)) =
     [left_part ln lr @ map (\<lambda>c. (rn c,
        (case filter (\<lambda>rr. cell_at rr rk = cell_at lr lk) (rows right) of
           [] \<Rightarrow> Num NaN | rr # _ \<Rightarrow> cell_at rr c))) rc]"
    for ln rn rc lr
    by (rule join_row_single) (rule partners_le1 [OF assms])
  then show ?thesis
    by (simp add: concat_singletons joined_row_def)
qed

lemma merge_left_rows:
  assumes "merge_left lk rk ls rs left right = Inr g"
    and "distinct (map (\<lambda>r. cell_at r rk) (rows right))"
  shows "rows g = map (joined_row lk rk ls rs left right) (rows left)"
  using merge_left_Inr [OF assms(1)] joined_rows_unique [OF assms(2)] by simp

lemma drop_columns_rows:
  assumes "drop_columns cs f = Inr g"
  shows "length (rows g) = length (rows f)"
  using assms by (auto simp: drop_columns_def split: if_splits)

lemma joiner_row_count:
  assumes "joiner games summary teams_opp = Inr joined"
    and "distinct (map (\<lambda>r. cell_at r TEAM) (rows summary))"
    and "distinct (map (\<lambda>r. cell_at r TEAM) (rows teams_opp))"
  shows "length (rows joined) = length (rows games)"
proof -
  from assms(1) obtain g1 g2
    where m1: "merge_left TEAM TEAM ''_x'' ''_y'' games summary = Inr g1"
      and m2: "merge_left OPPONENT TEAM [] ''_opp'' g1 teams_opp = Inr g2"
      and d: "drop_columns [TEAM_OPP] g2 = Inr joined"
    by (auto simp: joiner_def split: sum.splits)
  have "length (rows g1) = length (rows games)"
    using merge_left_rows [OF m1 assms(2)] by simp
  moreover have "length (rows g2) = length (rows g1)"
    using merge_left_rows [OF m2 assms(3)] by simp
  moreover have "length (rows joined) = length (rows g2)"
    using d by (rule drop_columns_rows)
  ultimately show ?thesis by simp
qed

lemma suffix_dups_same:
  "(\<And>c. c \<in> set seen \<union> set cs \<Longrightarrow> f c = c) \<Longrightarrow> suffix_dups f seen cs = []"
proof (induction cs arbitrary: seen)
  case Nil
  then show ?case by simp
next
  case (Cons c cs)
  have same: "map f seen = seen"
    using Cons.prems by (simp add: map_idI)
  have "f c = c" using Cons.prems by simp
  then have "\<not> (f c \<in> set (map f seen) \<and> c \<notin> set seen)"
    using same by simp
  moreover have "suffix_dups f (seen @ [c]) cs = []"
    using Cons.prems by (intro Cons.IH) auto
  ultimately show ?case by simp
qed

lemma left_part_same: "(\<And>k. k \<in> fst ` set lr \<Longrightarrow> f k = k) \<Longrightarrow> left_part f lr = lr"
  by (induction lr) (auto simp: left_part_def)

lemma labelled_same:
  "(\<And>c. c \<in> set cs \<Longrightarrow> f c = c) \<Longrightarrow> map (\<lambda>c. (f c, h c)) cs = map (\<lambda>c. (c, h c)) cs"
  by (induction cs) auto

lemma merge_left_unique:
  assumes "rk \<in> set (columns right)" "lk \<in> set (columns left)"
    and "\<not> key_mismatch left lk right rk"
    and "ls \<noteq> [] \<or> rs \<noteq> []"
    and "suffix_dups (left_label ls (right_labels lk rk right)) [] (columns left) = []"
    and "suffix_dups (right_label rs (columns left)) [] (right_labels lk rk right) = []"
    and "distinct (map (\<lambda>r. cell_at r rk) (rows right))"
  shows "merge_left lk rk ls rs left right =
     Inr \<lparr>columns = map (left_label ls (right_labels lk rk right)) (columns left)
                     @ map (right_label rs (columns left)) (right_labels lk rk right),
          rows = map (joined_row lk rk ls rs left right) (rows left)\<rparr>"
proof -
  have r: "concat (map (\<lambda>lr.
                    join_row (left_label ls (right_labels lk rk right))
                      (right_label rs (columns left)) (right_labels lk rk right) lr
                      (filter (\<lambda>rr. cell_at rr rk = cell_at lr lk) (rows right)))
                  (rows left))
         = map (joined_row lk rk ls rs left right) (rows left)"
    by (rule joined_rows_unique [OF assms(7)])
  show ?thesis
    using assms(1-6) by (auto simp: merge_left_def Let_def r)
qed


lemma wf_row_labels: "wf_frame f \<Longrightarrow> r \<in> set (rows f) \<Longrightarrow> fst ` set r = set (columns f)"
  by (metis (mono_tags, lifting) wf_frame_def list_all_iff list.set_map)

lemma key_neq: "TEAM \<noteq> TEAM_OPP" "OPPONENT \<noteq> TEAM_OPP" "OPA \<noteq> TEAM_OPP" "OPPONENT \<noteq> TEAM"
  "OPA \<noteq> TEAM" "TEAM_OPP \<noteq> OPA"
  by (simp_all add: TEAM_def TEAM_OPP_def OPPONENT_def OPA_def)

lemma team_opp_label: "TEAM @ ''_opp'' = TEAM_OPP"
  by (simp add: TEAM_def TEAM_OPP_def)

lemma drop_absent_label:
  "d \<notin> fst ` set r \<Longrightarrow> filter (\<lambda>(k, v). k \<notin> set [d]) r = r"
  by (induction r) auto

lemma map_of_left_part:
  assumes "\<And>k. lname k = c \<Longrightarrow> k = c" "lname c = c"
  shows "map_of (left_part lname lr) c = map_of lr c"
proof (induction lr)
  case Nil
  then show ?case by (simp add: left_part_def)
next
  case (Cons p lr)
  obtain k v where p: "p = (k, v)" by (cases p)
  show ?case
  proof (cases "k = c")
    case True
    then show ?thesis using assms(2) by (simp add: left_part_def p)
  next
    case False
    then have "lname k \<noteq> c" using assms(1) by blast
    then show ?thesis using False Cons.IH by (simp add: left_part_def p)
  qed
qed

lemma fst_left_part: "map fst (left_part lname lr) = map lname (map fst lr)"
  by (induction lr) (auto simp: left_part_def)

lemma suffix_neq: "s \<noteq> [] \<Longrightarrow> last s \<noteq> last t \<Longrightarrow> k @ s \<noteq> t"
  by (metis last_appendR)

lemma suffix_x_opponent: "k @ ''_x'' \<noteq> OPPONENT"
  by (rule suffix_neq; simp add: OPPONENT_def)

lemma allowed_label_neq: "OPA @ ''_opp'' \<noteq> TEAM_OPP"
  by (simp add: OPA_def TEAM_OPP_def)

lemma first_merge_general:
  assumes gk: "TEAM \<in> set (columns games)" and sk: "TEAM \<in> set (columns summary)"
    and km: "\<not> key_mismatch games TEAM summary TEAM"
    and d1: "suffix_dups (left_label ''_x'' (summary_labels summary)) [] (columns games) = []"
    and d2: "suffix_dups (right_label ''_y'' (columns games)) [] (summary_labels summary) = []"
    and us: "distinct (map (\<lambda>r. cell_at r TEAM) (rows summary))"
  shows "merge_left TEAM TEAM ''_x'' ''_y'' games summary =
     Inr \<lparr>columns = first_labels games summary,
          rows = map (first_row games summary) (rows games)\<rparr>"
proof -
  have rc: "right_labels TEAM TEAM summary = summary_labels summary"
    by (simp add: right_labels_def summary_labels_def)
  have sfx: "''_x'' \<noteq> [] \<or> ''_y'' \<noteq> []" by simp
  have row: "joined_row TEAM TEAM ''_x'' ''_y'' games summary = first_row games summary"
    by (rule ext) (simp add: joined_row_def first_row_def partner_cell_def rc)
  have d1': "suffix_dups (left_label ''_x'' (right_labels TEAM TEAM summary)) []
      (columns games) = []"
    using d1 by (simp add: rc)
  have d2': "suffix_dups (right_label ''_y'' (columns games)) []
      (right_labels TEAM TEAM summary) = []"
    using d2 by (simp add: rc)
  from merge_left_unique [OF sk gk km sfx d1' d2' us]
  show ?thesis
    by (simp add: rc row first_labels_def)
qed

lemma first_row_opponent:
  assumes "OPPONENT \<in> fst ` set g" "OPPONENT \<notin> set (columns summary)"
  shows "cell_at (first_row games summary g) OPPONENT = cell_at g OPPONENT"
proof -
  let ?ln = "left_label ''_x'' (summary_labels summary)"
  have nsl: "OPPONENT \<notin> set (summary_labels summary)"
    using assms(2) by (simp add: summary_labels_def)
  have same: "?ln OPPONENT = OPPONENT"
    using nsl by (simp add: left_label_def)
  have only: "k = OPPONENT" if "?ln k = OPPONENT" for k
    using that suffix_x_opponent [of k] by (auto simp: left_label_def split: if_splits)
  have m: "map_of (left_part ?ln g) OPPONENT = map_of g OPPONENT"
    using only same by (rule map_of_left_part)
  have "OPPONENT \<in> ?ln ` fst ` set g"
    using assms(1) same by (metis image_eqI)
  then have "OPPONENT \<in> fst ` set (left_part ?ln g)"
    using fst_left_part [of ?ln g] by (metis image_set list.set_map)
  then have "cell_at (first_row games summary g) OPPONENT = cell_at (left_part ?ln g) OPPONENT"
    by (simp add: first_row_def cell_at_append_left)
  also have "\<dots> = cell_at g OPPONENT"
    using m by (simp add: cell_at_def)
  finally show ?thesis .
qed

lemma first_row_labels:
  assumes "fst ` set g = set (columns games)"
  shows "fst ` set (first_row games summary g) = set (first_labels games summary)"
proof -
  have "map fst (first_row games summary g) =
        map (left_label ''_x'' (summary_labels summary)) (map fst g)
          @ map (right_label ''_y'' (columns games)) (summary_labels summary)"
    by (simp add: first_row_def fst_left_part comp_def)
  then have "set (map fst (first_row games summary g)) =
        left_label ''_x'' (summary_labels summary) ` fst ` set g
          \<union> right_label ''_y'' (columns games) ` set (summary_labels summary)"
    by (simp add: image_image)
  then show ?thesis
    using assms by (simp add: first_labels_def)
qed


lemma second_merge_general:
  assumes wf: "wf_frame games"
    and gk: "TEAM \<in> set (columns games)" "OPPONENT \<in> set (columns games)"
    and so: "OPPONENT \<notin> set (columns summary)"
    and tk: "columns teams_opp = [TEAM, OPA]"
    and km: "\<not> key_mismatch games OPPONENT teams_opp TEAM"
    and ut: "distinct (map (\<lambda>r. cell_at r TEAM) (rows teams_opp))"
  shows "merge_left OPPONENT TEAM [] ''_opp''
           \<lparr>columns = first_labels games summary,
            rows = map (first_row games summary) (rows games)\<rparr> teams_opp =
     Inr \<lparr>columns = first_labels games summary @ [TEAM_OPP, allowed_label games summary],
          rows = map (\<lambda>g. first_row games summary g
                   @ [(TEAM_OPP, partner_cell teams_opp (cell_at g OPPONENT) TEAM),
                      (allowed_label games summary,
                       partner_cell teams_opp (cell_at g OPPONENT) OPA)]) (rows games)\<rparr>"
proof -
  let ?g1 = "\<lparr>columns = first_labels games summary,
            rows = map (first_row games summary) (rows games)\<rparr>"
  let ?rc = "right_labels OPPONENT TEAM teams_opp"
  let ?ln = "left_label [] ?rc"
  let ?rn = "right_label ''_opp'' (columns ?g1)"
  have rc: "?rc = [TEAM, OPA]"
    using tk by (simp add: right_labels_def key_neq)
  have nsl: "OPPONENT \<notin> set (summary_labels summary)" "TEAM \<notin> set (summary_labels summary)"
    using so by (simp_all add: summary_labels_def)
  have tin1: "TEAM \<in> set (first_labels games summary)"
  proof -
    have "left_label ''_x'' (summary_labels summary) TEAM = TEAM"
      using nsl(2) by (simp add: left_label_def)
    then show ?thesis using gk(1) by (force simp: first_labels_def)
  qed
  have oin1: "OPPONENT \<in> set (first_labels games summary)"
  proof -
    have "left_label ''_x'' (summary_labels summary) OPPONENT = OPPONENT"
      using nsl(1) by (simp add: left_label_def)
    then show ?thesis using gk(2) by (force simp: first_labels_def)
  qed
  have opp: "cell_at (first_row games summary g) OPPONENT = cell_at g OPPONENT"
    if "g \<in> set (rows games)" for g
  proof -
    have "fst ` set g = set (columns games)"
      using wf that by (rule wf_row_labels)
    then have "OPPONENT \<in> fst ` set g" using gk(2) by simp
    then show ?thesis using so by (rule first_row_opponent)
  qed
  have ln: "?ln c = c" for c
    by (simp add: left_label_def)
  have rnt: "?rn TEAM = TEAM_OPP"
    using tin1 by (simp add: right_label_def team_opp_label)
  have rno: "?rn OPA = allowed_label games summary"
    by (simp add: allowed_label_def)
  have al: "allowed_label games summary \<noteq> TEAM_OPP"
    using allowed_label_neq by (simp add: allowed_label_def right_label_def key_neq)
  have tcol: "text_column ?g1 OPPONENT = text_column games OPPONENT"
    using opp by (auto simp: text_column_def list_ex_iff)
  have km1: "\<not> key_mismatch ?g1 OPPONENT teams_opp TEAM"
    using km by (simp add: key_mismatch_def number_column_def tcol)
  have tin: "TEAM \<in> set (columns teams_opp)" using tk by simp
  have oin: "OPPONENT \<in> set (columns ?g1)" using oin1 by simp
  have d1: "suffix_dups ?ln [] (columns ?g1) = []"
    by (rule suffix_dups_same) (rule ln)
  have d2: "suffix_dups ?rn [] ?rc = []"
    unfolding rc using rnt rno al by (simp add: key_neq)
  have sfx: "([]::string) \<noteq> [] \<or> ''_opp'' \<noteq> []" by simp
  note m = merge_left_unique [OF tin oin km1 sfx d1 d2 ut]
  have row: "joined_row OPPONENT TEAM [] ''_opp'' ?g1 teams_opp r1 =
       r1 @ [(TEAM_OPP, partner_cell teams_opp (cell_at r1 OPPONENT) TEAM),
             (allowed_label games summary, partner_cell teams_opp (cell_at r1 OPPONENT) OPA)]"
    for r1
  proof -
    have "left_part ?ln r1 = r1"
      by (rule left_part_same) (rule ln)
    then show ?thesis
      using rnt rno unfolding joined_row_def rc by (simp add: partner_cell_def)
  qed
  have lnid: "map (left_label [] cs) xs = xs" for cs xs
    by (rule map_idI) (simp add: left_label_def)
  have cols: "map ?ln (columns ?g1) @ map ?rn ?rc
       = first_labels games summary @ [TEAM_OPP, allowed_label games summary]"
    unfolding rc using rnt rno by (simp add: lnid)
  have rows: "map (joined_row OPPONENT TEAM [] ''_opp'' ?g1 teams_opp) (rows ?g1)
      = map (\<lambda>g. first_row games summary g
                   @ [(TEAM_OPP, partner_cell teams_opp (cell_at g OPPONENT) TEAM),
                      (allowed_label games summary,
                       partner_cell teams_opp (cell_at g OPPONENT) OPA)]) (rows games)"
    using opp by (simp add: row comp_def cong: map_cong)
  show ?thesis
    using m cols rows by simp
qed

lemma joiner_general:
  assumes wf: "wf_frame games"
    and gk: "TEAM \<in> set (columns games)" "OPPONENT \<in> set (columns games)"
    and sk: "TEAM \<in> set (columns summary)" "OPPONENT \<notin> set (columns summary)"
    and tk: "columns teams_opp = [TEAM, OPA]"
    and km: "\<not> key_mismatch games TEAM summary TEAM"
      "\<not> key_mismatch games OPPONENT teams_opp TEAM"
    and d: "suffix_dups (left_label ''_x'' (summary_labels summary)) [] (columns games) = []"
      "suffix_dups (right_label ''_y'' (columns games)) [] (summary_labels summary) = []"
    and fresh: "TEAM_OPP \<notin> set (first_labels games summary)"
    and us: "distinct (map (\<lambda>r. cell_at r TEAM) (rows summary))"
    and ut: "distinct (map (\<lambda>r. cell_at r TEAM) (rows teams_opp))"
  shows "joiner games summary teams_opp =
     Inr \<lparr>columns = first_labels games summary @ [allowed_label games summary],
          rows = map (joined_row_of games summary teams_opp) (rows games)\<rparr>"
proof -
  note m1 = first_merge_general [OF gk(1) sk(1) km(1) d us]
  note m2 = second_merge_general [OF wf gk sk(2) tk km(2) ut]
  let ?al = "allowed_label games summary"
  let ?g2 = "\<lparr>columns = first_labels games summary @ [TEAM_OPP, ?al],
          rows = map (\<lambda>g. first_row games summary g
                   @ [(TEAM_OPP, partner_cell teams_opp (cell_at g OPPONENT) TEAM),
                      (?al, partner_cell teams_opp (cell_at g OPPONENT) OPA)]) (rows games)\<rparr>"
  have al: "?al \<noteq> TEAM_OPP"
    using allowed_label_neq by (simp add: allowed_label_def right_label_def key_neq)
  have ab: "absent [TEAM_OPP] ?g2 = []"
    by (simp add: absent_def)
  have keep: "filter (\<lambda>c. c \<noteq> TEAM_OPP) xs = xs" if "TEAM_OPP \<notin> set xs" for xs
    using that by (induction xs) auto
  have cols: "filter (\<lambda>c. c \<notin> set [TEAM_OPP]) (columns ?g2)
      = first_labels games summary @ [?al]"
    using fresh al by (simp add: keep)
  have row: "filter (\<lambda>(k, v). k \<notin> set [TEAM_OPP])
        (first_row games summary g
           @ [(TEAM_OPP, partner_cell teams_opp (cell_at g OPPONENT) TEAM),
              (?al, partner_cell teams_opp (cell_at g OPPONENT) OPA)])
      = joined_row_of games summary teams_opp g" if "g \<in> set (rows games)" for g
  proof -
    have "fst ` set g = set (columns games)"
      using wf that by (rule wf_row_labels)
    then have "fst ` set (first_row games summary g) = set (first_labels games summary)"
      by (rule first_row_labels)
    then have "TEAM_OPP \<notin> fst ` set (first_row games summary g)"
      using fresh by simp
    then have "filter (\<lambda>(k, v). k \<notin> set [TEAM_OPP]) (first_row games summary g)
        = first_row games summary g"
      by (rule drop_absent_label)
    then show ?thesis
      using al by (simp add: joined_row_of_def)
  qed
  have rows: "map (filter (\<lambda>(k, v). k \<notin> set [TEAM_OPP])) (rows ?g2)
      = map (joined_row_of games summary teams_opp) (rows games)"
    using row by (simp add: comp_def cong: map_cong)
  have "drop_columns [TEAM_OPP] ?g2 =
     Inr \<lparr>columns = first_labels games summary @ [?al],
          rows = map (joined_row_of games summary teams_opp) (rows games)\<rparr>"
    using ab cols rows by (simp only: drop_columns_def if_False simp_thms)
  then show ?thesis
    by (simp add: joiner_def m1 m2)
qed

text \<open>
  The opponent-defense projection of line 37 has the two labels the joiner expects, and the
  team keys of the teams table.
\<close>

lemma teams_opp_of_Inr:
  assumes "teams_opp_of teams = Inr teams_opp"
  shows "columns teams_opp = [TEAM, OPA]"
    and "map (\<lambda>r. cell_at r TEAM) (rows teams_opp) = map (\<lambda>r. cell_at r TEAM) (rows teams)"
proof -
  have ren: "rename_label [(APA, OPA)] TEAM = TEAM" "rename_label [(APA, OPA)] APA = OPA"
    by (simp_all add: rename_label_def label_defs)
  have t: "teams_opp = rename [(APA, OPA)]
      \<lparr>columns = [TEAM, APA],
       rows = map (\<lambda>r. map (\<lambda>c. (c, cell_at r c)) [TEAM, APA]) (rows teams)\<rparr>"
    using assms by (auto simp: teams_opp_of_def select_columns_def split: if_splits)
  show "columns teams_opp = [TEAM, OPA]"
    by (simp add: t rename_def ren)
  have "cell_at (map (\<lambda>(k, v). (rename_label [(APA, OPA)] k, v))
          (map (\<lambda>c. (c, cell_at r c)) [TEAM, APA])) TEAM = cell_at r TEAM" for r
    by (simp add: ren cell_at_def)
  then show "map (\<lambda>r. cell_at r TEAM) (rows teams_opp) = map (\<lambda>r. cell_at r TEAM) (rows teams)"
    by (simp add: t rename_def comp_def)
qed

text \<open>
  The boundary: a number key against a text key makes the join raise, as pandas does.
\<close>

lemma joiner_key_mismatch:
  assumes "TEAM \<in> set (columns games)" "TEAM \<in> set (columns summary)"
    and "key_mismatch games TEAM summary TEAM"
  shows "joiner games summary teams_opp = Inl ValueError"
  using assms by (simp add: joiner_def merge_left_def)

lemma joiner_numbered_teams:
  "joiner sample_games sample_summary
     \<lparr>columns = [TEAM, OPA], rows = [[(TEAM, Num (Fin 1)), (OPA, Num (Fin 20))]]\<rparr>
   = Inl ValueError"
  by (simp add: joiner_def merge_left_def drop_columns_def absent_def right_labels_def
      left_label_def right_label_def key_mismatch_def text_column_def number_column_def
      left_part_def join_row_def cell_at_def Let_def
      sample_games_def sample_summary_def label_defs)

text \<open>
  Claim C6. When every team occurs at most once in the summary and in the opponent-defense
  projection, a joined table has exactly as many rows as the games table. On valid inputs,
  those on which pandas raises nothing (the key columns are there and of the same kind on
  both sides, no suffix makes two labels equal) and the label of the second key is new,
  the joined table is known cell for cell: row \<open>i\<close> is game \<open>i\<close> with all its cells,
  in order (under the same labels when games and summary share no label but the team),
  followed by the cells of its team's summary row and the points allowed by its opponent.
  A game without a summary row has the missing marker under every summary label, a game
  without a defense row has it under the opponent's points allowed.
\<close>

theorem joiner_keeps_every_game:
  fixes games summary teams_opp :: frame
  defines "rc \<equiv> filter (\<lambda>c. c \<noteq> TEAM) (columns summary)"
  defines "lname \<equiv> (\<lambda>c. if c \<in> set rc then c @ ''_x'' else c)"
    and "rname \<equiv> (\<lambda>c. if c \<in> set (columns games) then c @ ''_y'' else c)"
  defines "labels \<equiv> map lname (columns games) @ map rname rc"
  defines "opa \<equiv> (if OPA \<in> set labels then OPA @ ''_opp'' else OPA)"
  assumes us: "distinct (map (\<lambda>r. cell_at r TEAM) (rows summary))"
    and ut: "distinct (map (\<lambda>r. cell_at r TEAM) (rows teams_opp))"
  shows "(\<forall>joined. joiner games summary teams_opp = Inr joined \<longrightarrow>
            length (rows joined) = length (rows games))
     \<and> (wf_frame games \<and> TEAM \<in> set (columns games) \<and> OPPONENT \<in> set (columns games)
        \<and> TEAM \<in> set (columns summary) \<and> OPPONENT \<notin> set (columns summary)
        \<and> columns teams_opp = [TEAM, OPA]
        \<and> \<not> key_mismatch games TEAM summary TEAM
        \<and> \<not> key_mismatch games OPPONENT teams_opp TEAM
        \<and> suffix_dups lname [] (columns games) = [] \<and> suffix_dups rname [] rc = []
        \<and> TEAM_OPP \<notin> set labels
        \<longrightarrow>
        (\<exists>joined. joiner games summary teams_opp = Inr joined
           \<and> columns joined = labels @ [opa]
           \<and> rows joined =
               map (\<lambda>g. map (\<lambda>(k, v). (lname k, v)) g
                     @ map (\<lambda>c. (rname c, case filter (\<lambda>s. cell_at s TEAM = cell_at g TEAM)
                                             (rows summary) of
                                        [] \<Rightarrow> Num NaN | s # _ \<Rightarrow> cell_at s c)) rc
                     @ [(opa, case filter (\<lambda>t. cell_at t TEAM = cell_at g OPPONENT)
                                     (rows teams_opp) of
                                [] \<Rightarrow> Num NaN | t # _ \<Rightarrow> cell_at t OPA)])
                 (rows games)
           \<and> (\<forall>i<length (rows games).
                 take (length (rows games ! i)) (rows joined ! i)
                   = map (\<lambda>(k, v). (lname k, v)) (rows games ! i)
               \<and> (set (columns games) \<inter> set (columns summary) \<subseteq> {TEAM} \<longrightarrow>
                    take (length (rows games ! i)) (rows joined ! i) = rows games ! i)
               \<and> ((\<forall>s\<in>set (rows summary). cell_at s TEAM \<noteq> cell_at (rows games ! i) TEAM)
                    \<longrightarrow> (\<forall>c\<in>set rc. (rname c, Num NaN) \<in> set (rows joined ! i)))
               \<and> ((\<forall>t\<in>set (rows teams_opp). cell_at t TEAM \<noteq> cell_at (rows games ! i) OPPONENT)
                    \<longrightarrow> (opa, Num NaN) \<in> set (rows joined ! i)))))"
proof (intro conjI allI impI)
  fix joined
  assume "joiner games summary teams_opp = Inr joined"
  then show "length (rows joined) = length (rows games)"
    using us ut by (rule joiner_row_count)
next
  assume valid: "wf_frame games \<and> TEAM \<in> set (columns games) \<and> OPPONENT \<in> set (columns games)
        \<and> TEAM \<in> set (columns summary) \<and> OPPONENT \<notin> set (columns summary)
        \<and> columns teams_opp = [TEAM, OPA]
        \<and> \<not> key_mismatch games TEAM summary TEAM
        \<and> \<not> key_mismatch games OPPONENT teams_opp TEAM
        \<and> suffix_dups lname [] (columns games) = [] \<and> suffix_dups rname [] rc = []
        \<and> TEAM_OPP \<notin> set labels"
  have rc: "rc = summary_labels summary"
    by (simp add: rc_def summary_labels_def)
  have lname: "lname = left_label ''_x'' (summary_labels summary)"
    by (rule ext) (simp add: lname_def left_label_def rc)
  have rname: "rname = right_label ''_y'' (columns games)"
    by (rule ext) (simp add: rname_def right_label_def)
  have labels: "labels = first_labels games summary"
    by (simp add: labels_def first_labels_def lname rname rc)
  have opa: "opa = allowed_label games summary"
    by (simp add: opa_def allowed_label_def right_label_def labels)
  define joined where "joined =
     \<lparr>columns = first_labels games summary @ [allowed_label games summary],
      rows = map (joined_row_of games summary teams_opp) (rows games)\<rparr>"
  have v: "wf_frame games" "TEAM \<in> set (columns games)" "OPPONENT \<in> set (columns games)"
    "TEAM \<in> set (columns summary)" "OPPONENT \<notin> set (columns summary)"
    "columns teams_opp = [TEAM, OPA]" "\<not> key_mismatch games TEAM summary TEAM"
    "\<not> key_mismatch games OPPONENT teams_opp TEAM"
    using valid by simp_all
  have d1: "suffix_dups (left_label ''_x'' (summary_labels summary)) [] (columns games) = []"
    using valid by (simp add: lname rc)
  have d2: "suffix_dups (right_label ''_y'' (columns games)) [] (summary_labels summary) = []"
    using valid by (simp add: rname rc)
  have fresh: "TEAM_OPP \<notin> set (first_labels games summary)"
    using valid by (simp add: labels)
  have j: "joiner games summary teams_opp = Inr joined"
    unfolding joined_def by (rule joiner_general [OF v d1 d2 fresh us ut])
  have cols: "columns joined = labels @ [opa]"
    by (simp add: joined_def labels opa)
  have jr: "joined_row_of games summary teams_opp g =
        map (\<lambda>(k, v). (lname k, v)) g
          @ map (\<lambda>c. (rname c, case filter (\<lambda>s. cell_at s TEAM = cell_at g TEAM)
                                  (rows summary) of
                             [] \<Rightarrow> Num NaN | s # _ \<Rightarrow> cell_at s c)) rc
          @ [(opa, case filter (\<lambda>t. cell_at t TEAM = cell_at g OPPONENT)
                          (rows teams_opp) of
                     [] \<Rightarrow> Num NaN | t # _ \<Rightarrow> cell_at t OPA)]" for g
    by (simp add: joined_row_of_def first_row_def left_part_def partner_cell_def lname rname rc opa)
  have rows: "rows joined =
               map (\<lambda>g. map (\<lambda>(k, v). (lname k, v)) g
                     @ map (\<lambda>c. (rname c, case filter (\<lambda>s. cell_at s TEAM = cell_at g TEAM)
                                             (rows summary) of
                                        [] \<Rightarrow> Num NaN | s # _ \<Rightarrow> cell_at s c)) rc
                     @ [(opa, case filter (\<lambda>t. cell_at t TEAM = cell_at g OPPONENT)
                                     (rows teams_opp) of
                                [] \<Rightarrow> Num NaN | t # _ \<Rightarrow> cell_at t OPA)])
                 (rows games)"
    by (simp add: joined_def jr)
  have each: "take (length (rows games ! i)) (rows joined ! i)
                   = map (\<lambda>(k, v). (lname k, v)) (rows games ! i)
               \<and> (set (columns games) \<inter> set (columns summary) \<subseteq> {TEAM} \<longrightarrow>
                    take (length (rows games ! i)) (rows joined ! i) = rows games ! i)
               \<and> ((\<forall>s\<in>set (rows summary). cell_at s TEAM \<noteq> cell_at (rows games ! i) TEAM)
                    \<longrightarrow> (\<forall>c\<in>set rc. (rname c, Num NaN) \<in> set (rows joined ! i)))
               \<and> ((\<forall>t\<in>set (rows teams_opp). cell_at t TEAM \<noteq> cell_at (rows games ! i) OPPONENT)
                    \<longrightarrow> (opa, Num NaN) \<in> set (rows joined ! i))"
    if i: "i < length (rows games)" for i
  proof -
    let ?g = "rows games ! i"
    have r: "rows joined ! i =
        map (\<lambda>(k, v). (lname k, v)) ?g
          @ map (\<lambda>c. (rname c, case filter (\<lambda>s. cell_at s TEAM = cell_at ?g TEAM)
                                  (rows summary) of
                             [] \<Rightarrow> Num NaN | s # _ \<Rightarrow> cell_at s c)) rc
          @ [(opa, case filter (\<lambda>t. cell_at t TEAM = cell_at ?g OPPONENT)
                          (rows teams_opp) of
                     [] \<Rightarrow> Num NaN | t # _ \<Rightarrow> cell_at t OPA)]"
      using i by (simp add: rows)
    have a: "take (length ?g) (rows joined ! i) = map (\<lambda>(k, v). (lname k, v)) ?g"
      by (simp add: r)
    have a': "take (length ?g) (rows joined ! i) = ?g"
      if ov: "set (columns games) \<inter> set (columns summary) \<subseteq> {TEAM}"
    proof -
      have "?g \<in> set (rows games)" using i by simp
      then have "fst ` set ?g = set (columns games)"
        using valid by (intro wf_row_labels) simp
      then have "lname k = k" if "k \<in> fst ` set ?g" for k
        using that ov by (auto simp: lname_def rc_def)
      then have "left_part lname ?g = ?g"
        by (rule left_part_same)
      then show ?thesis
        using a by (simp add: left_part_def)
    qed
    have b: "(rname c, Num NaN) \<in> set (rows joined ! i)"
      if "\<forall>s\<in>set (rows summary). cell_at s TEAM \<noteq> cell_at ?g TEAM" and "c \<in> set rc" for c
    proof -
      have "filter (\<lambda>s. cell_at s TEAM = cell_at ?g TEAM) (rows summary) = []"
        using that(1) by (simp add: filter_empty_conv)
      then show ?thesis
        using that(2) by (force simp: r)
    qed
    have c: "(opa, Num NaN) \<in> set (rows joined ! i)"
      if "\<forall>t\<in>set (rows teams_opp). cell_at t TEAM \<noteq> cell_at ?g OPPONENT"
    proof -
      have "filter (\<lambda>t. cell_at t TEAM = cell_at ?g OPPONENT) (rows teams_opp) = []"
        using that by (simp add: filter_empty_conv)
      then show ?thesis
        by (simp add: r)
    qed
    show ?thesis using a a' b c by blast
  qed
  show "\<exists>joined. joiner games summary teams_opp = Inr joined
           \<and> columns joined = labels @ [opa]
           \<and> rows joined =
               map (\<lambda>g. map (\<lambda>(k, v). (lname k, v)) g
                     @ map (\<lambda>c. (rname c, case filter (\<lambda>s. cell_at s TEAM = cell_at g TEAM)
                                             (rows summary) of
                                        [] \<Rightarrow> Num NaN | s # _ \<Rightarrow> cell_at s c)) rc
                     @ [(opa, case filter (\<lambda>t. cell_at t TEAM = cell_at g OPPONENT)
                                     (rows teams_opp) of
                                [] \<Rightarrow> Num NaN | t # _ \<Rightarrow> cell_at t OPA)])
                 (rows games)
           \<and> (\<forall>i<length (rows games).
                 take (length (rows games ! i)) (rows joined ! i)
                   = map (\<lambda>(k, v). (lname k, v)) (rows games ! i)
               \<and> (set (columns games) \<inter> set (columns summary) \<subseteq> {TEAM} \<longrightarrow>
                    take (length (rows games ! i)) (rows joined ! i) = rows games ! i)
               \<and> ((\<forall>s\<in>set (rows summary). cell_at s TEAM \<noteq> cell_at (rows games ! i) TEAM)
                    \<longrightarrow> (\<forall>c\<in>set rc. (rname c, Num NaN) \<in> set (rows joined ! i)))
               \<and> ((\<forall>t\<in>set (rows teams_opp). cell_at t TEAM \<noteq> cell_at (rows games ! i) OPPONENT)
                    \<longrightarrow> (opa, Num NaN) \<in> set (rows joined ! i)))"
    using j cols rows each by blast
qed




theorem joiner_keeps_every_game_witness:
  "joiner sample_games sample_summary sample_teams_opp = Inr sample_joiner_result
   \<and> length (rows sample_joiner_result) = 3 \<and> length (rows sample_games) = 3
   \<and> take 5 (rows sample_joiner_result ! 2) = rows sample_games ! 2
   \<and> (OPA, Num NaN) \<in> set (rows sample_joiner_result ! 2)"
proof -
  have us: "distinct (map (\<lambda>r. cell_at r TEAM) (rows sample_summary))"
    by (simp add: sample_summary_def cell_at_def label_defs)
  have ut: "distinct (map (\<lambda>r. cell_at r TEAM) (rows sample_teams_opp))"
    by (simp add: sample_teams_opp_def cell_at_def label_defs)
  note t = joiner_keeps_every_game [OF us ut, where games = sample_games]
  have valid: "wf_frame sample_games \<and> TEAM \<in> set (columns sample_games)
        \<and> OPPONENT \<in> set (columns sample_games)
        \<and> TEAM \<in> set (columns sample_summary) \<and> OPPONENT \<notin> set (columns sample_summary)
        \<and> columns sample_teams_opp = [TEAM, OPA]
        \<and> \<not> key_mismatch sample_games TEAM sample_summary TEAM
        \<and> \<not> key_mismatch sample_games OPPONENT sample_teams_opp TEAM
        \<and> suffix_dups (\<lambda>c. if c \<in> set (filter (\<lambda>c. c \<noteq> TEAM) (columns sample_summary))
                             then c @ ''_x'' else c) [] (columns sample_games) = []
        \<and> suffix_dups (\<lambda>c. if c \<in> set (columns sample_games) then c @ ''_y'' else c) []
             (filter (\<lambda>c. c \<noteq> TEAM) (columns sample_summary)) = []
        \<and> TEAM_OPP \<notin> set (map (\<lambda>c. if c \<in> set (filter (\<lambda>c. c \<noteq> TEAM)
                                          (columns sample_summary))
                                    then c @ ''_x'' else c) (columns sample_games)
                             @ map (\<lambda>c. if c \<in> set (columns sample_games) then c @ ''_y'' else c)
                                 (filter (\<lambda>c. c \<noteq> TEAM) (columns sample_summary)))"
    by (simp add: wf_frame_def key_mismatch_def text_column_def number_column_def
        sample_games_def sample_summary_def sample_teams_opp_def cell_at_def label_defs)
  have opa: "(if OPA \<in> set (map (\<lambda>c. if c \<in> set (filter (\<lambda>c. c \<noteq> TEAM)
                                          (columns sample_summary))
                                    then c @ ''_x'' else c) (columns sample_games)
                             @ map (\<lambda>c. if c \<in> set (columns sample_games) then c @ ''_y'' else c)
                                 (filter (\<lambda>c. c \<noteq> TEAM) (columns sample_summary)))
              then OPA @ ''_opp'' else OPA) = OPA"
    by (simp add: sample_games_def sample_summary_def label_defs)
  have ov: "set (columns sample_games) \<inter> set (columns sample_summary) \<subseteq> {TEAM}"
    by (simp add: sample_games_def sample_summary_def label_defs)
  have n: "length (rows sample_games) = 3" "length (rows sample_games ! 2) = 5"
    by (simp_all add: sample_games_def)
  have none: "\<forall>t\<in>set (rows sample_teams_opp).
      cell_at t TEAM \<noteq> cell_at (rows sample_games ! 2) OPPONENT"
    by (simp add: sample_games_def sample_teams_opp_def cell_at_def label_defs)
  from t valid obtain joined
    where j: "joiner sample_games sample_summary sample_teams_opp = Inr joined"
      and each: "\<forall>i<length (rows sample_games).
          (set (columns sample_games) \<inter> set (columns sample_summary) \<subseteq> {TEAM} \<longrightarrow>
             take (length (rows sample_games ! i)) (rows joined ! i) = rows sample_games ! i)
          \<and> ((\<forall>t\<in>set (rows sample_teams_opp).
                 cell_at t TEAM \<noteq> cell_at (rows sample_games ! i) OPPONENT)
               \<longrightarrow> (OPA, Num NaN) \<in> set (rows joined ! i))"
    unfolding opa by blast
  from t j have len: "length (rows joined) = length (rows sample_games)"
    by blast
  have "(2::nat) < length (rows sample_games)" using n by simp
  with each ov none have "take 5 (rows joined ! 2) = rows sample_games ! 2"
    and "(OPA, Num NaN) \<in> set (rows joined ! 2)"
    using n(2) by auto
  moreover have "joined = sample_joiner_result"
    using j sample_joiner by simp
  ultimately show ?thesis
    using j len n by simp
qed

section \<open>Properties of the trainer and the predictor\<close>

lemma absent_features_iff:
  "(\<exists>f\<in>set features. f \<notin> set (columns games)) \<longleftrightarrow> absent features games \<noteq> []"
  by (auto simp: absent_def filter_empty_conv)

text \<open>
  The test of line 93 never prints: when a feature is absent, line 89 has raised already.
\<close>

lemma trainer_explicit_check_unreachable:
  assumes "trainer fit games = Inl (printed, stopped)"
  shows "ErrMissingFeatures ms \<notin> set printed"
proof (cases "absent features games = []")
  case False
  then have "select_columns features games = Inl (KeyError (absent features games))"
    by (simp add: select_columns_def)
  then show ?thesis
    using assms by (auto simp: trainer_def training_failed_def)
next
  case True
  then have "filter (\<lambda>f. f \<notin> set (columns games)) features = []"
    by (simp add: absent_def)
  then show ?thesis
    using assms
    by (auto simp: trainer_def training_failed_def Let_def split: sum.splits pyerr.splits)
qed

text \<open>
  The trainer on a table without a feature column: the KeyError of line 89 is printed by
  the handler of line 103, with the columns the table has, and the fitting routine is not
  called. No table the cleaner returns is such a table.
\<close>

lemma trainer_block_missing_features:
  assumes "\<exists>f\<in>set features. f \<notin> set (columns games)"
  shows "trainer fit games =
           Inl ([ErrMissingColumn (KeyError (filter (\<lambda>f. f \<notin> set (columns games)) features)),
                 AvailableColumns (columns games)], Exited 1)"
proof -
  have "absent features games \<noteq> []"
    using assms by (simp add: absent_features_iff)
  then have "select_columns features games = Inl (KeyError (absent features games))"
    by (simp add: select_columns_def)
  then show ?thesis
    by (simp add: trainer_def training_failed_def absent_def)
qed

lemma cleaned_has_features:
  assumes "cleaner parse joined = Inr cleaned"
  shows "set features \<subseteq> set (columns cleaned)"
proof -
  have cols: "set features \<subseteq> set (columns joined)"
    using assms by (rule cleaner_Inr_columns)
  from cleaner_rows [OF cols, of parse] assms have "columns cleaned = columns joined"
    by auto
  with cols show ?thesis by simp
qed

lemma main_stops_in_cleaner:
  assumes "teams_opp_of teams = Inr teams_opp"
    and "joiner (rename_games games0) (rename_summary summary0) teams_opp = Inr joined"
    and "\<not> set features \<subseteq> set (columns joined)"
  shows "\<exists>ks. main parse fit predict games0 summary0 teams = ([], Uncaught (KeyError ks))"
proof -
  from cleaner_missing_column [OF assms(3), of parse]
  obtain ks where "cleaner parse joined = Inl (KeyError ks)" by blast
  then show ?thesis
    using assms(1,2) by (simp add: main_def Let_def)
qed

lemma sample_rename_summary_no_momentum:
  "rename_summary sample_summary_no_momentum0 = sample_summary_no_momentum"
  by (simp add: rename_summary_def rename_def rename_label_def sample_summary_no_momentum0_def
      sample_summary_no_momentum_def label_defs)

lemma sample_joiner_no_momentum:
  "joiner sample_games sample_summary_no_momentum sample_teams_opp = Inr sample_joined_no_momentum"
  by (simp add: joiner_def merge_left_def drop_columns_def absent_def right_labels_def
      left_label_def right_label_def key_mismatch_def text_column_def number_column_def
      left_part_def join_row_def cell_at_def Let_def
      sample_games_def sample_summary_no_momentum_def sample_teams_opp_def
      sample_joined_no_momentum_def label_defs)

lemma sample_cleaner_no_momentum:
  "cleaner parse_sample sample_joined_no_momentum = Inl (KeyError [OM])"
  by (simp add: cleaner_def dropna_def absent_def features_def sample_joined_no_momentum_def
      label_defs)

text \<open>
  Claim C7: before fitting, a missing feature column is reported, with the columns that
  are available. The script does not get there: a joined table that lacks a feature column
  stops it in the cleaner, at line 56 or 62, with a KeyError that nothing catches. Here
  the summary has no momentum column: the run prints nothing, neither the missing feature
  nor the available columns, and ends with the KeyError.
\<close>

theorem main_without_momentum_column:
  "main parse_sample sample_fit sample_predict sample_games0 sample_summary_no_momentum0
     sample_teams = ([], Uncaught (KeyError [OM]))"
  by (simp add: main_def sample_rename_games sample_rename_summary_no_momentum
      sample_teams_opp_of sample_joiner_no_momentum sample_cleaner_no_momentum)

lemma find_team_Inr:
  "TEAM \<in> set (columns f) \<Longrightarrow> has_team f name \<Longrightarrow> \<exists>r. find_team f name = Inr r"
  by (auto simp: find_team_def has_team_def list_ex_iff filter_empty_conv split: list.splits)

lemma find_team_IndexError:
  "TEAM \<in> set (columns f) \<Longrightarrow> \<not> has_team f name \<Longrightarrow> find_team f name = Inl IndexError"
  by (auto simp: find_team_def has_team_def list_ex_iff filter_empty_conv split: list.splits)

lemma lookup_failed_IndexError:
  assumes "TEAM \<in> set (columns summary)" "TEAM \<in> set (columns teams)"
  shows "lookup_failed summary teams IndexError =
     ([ErrTeamData NE SEA,
       AvailSummary (take 10 (unique (map (\<lambda>r. cell_at r TEAM) (rows summary)))),
       AvailTeams (take 10 (unique (map (\<lambda>r. cell_at r TEAM) (rows teams))))], Exited 1)"
  using assms by (simp add: lookup_failed_def get_column_def)

lemma lookup_teams_missing:
  assumes s: "TEAM \<in> set (columns summary)" and t: "TEAM \<in> set (columns teams)"
    and miss: "\<not> has_team summary NE \<or> \<not> has_team teams SEA
               \<or> \<not> has_team summary SEA \<or> \<not> has_team teams NE"
  shows "lookup_teams summary teams = Inl (lookup_failed summary teams IndexError)"
proof (cases "has_team summary NE")
  case False
  then show ?thesis
    by (simp add: lookup_teams_def find_team_IndexError [OF s])
next
  case a: True
  then obtain r1 where r1: "find_team summary NE = Inr r1"
    using find_team_Inr [OF s] by blast
  show ?thesis
  proof (cases "has_team teams SEA")
    case False
    then show ?thesis
      by (simp add: lookup_teams_def r1 find_team_IndexError [OF t])
  next
    case b: True
    then obtain r2 where r2: "find_team teams SEA = Inr r2"
      using find_team_Inr [OF t] by blast
    show ?thesis
    proof (cases "has_team summary SEA")
      case False
      then show ?thesis
        by (simp add: lookup_teams_def r1 r2 find_team_IndexError [OF s])
    next
      case c: True
      then obtain r3 where r3: "find_team summary SEA = Inr r3"
        using find_team_Inr [OF s] by blast
      have "\<not> has_team teams NE" using miss a b c by blast
      then show ?thesis
        by (simp add: lookup_teams_def r1 r2 r3 find_team_IndexError [OF t])
    qed
  qed
qed

text \<open>
  Claim C8. When one of the two fixed teams has no row in the summary or in the teams
  table, the prediction stage prints the line naming the two fixed teams (the missing one
  among them), the first ten distinct team names of the summary and of the teams table,
  and exits with status 1; nothing else is printed, so no prediction is.
\<close>

theorem predictor_reports_missing_team:
  assumes "TEAM \<in> set (columns summary)" and "TEAM \<in> set (columns teams)"
    and "\<not> has_team summary NE \<or> \<not> has_team teams SEA
         \<or> \<not> has_team summary SEA \<or> \<not> has_team teams NE"
  shows "predictor parse predict mean_weighted_score model summary teams =
     ([ErrTeamData NE SEA,
       AvailSummary (take 10 (unique (map (\<lambda>r. cell_at r TEAM) (rows summary)))),
       AvailTeams (take 10 (unique (map (\<lambda>r. cell_at r TEAM) (rows teams))))], Exited 1)"
  by (simp add: predictor_def lookup_teams_missing [OF assms] lookup_failed_IndexError [OF assms(1,2)])


theorem predictor_reports_missing_team_witness:
  "\<not> has_team sample_teams_no_sea SEA
   \<and> predictor parse_sample sample_predict NaN (0, [1, 1, 0, 0]) sample_summary sample_teams_no_sea =
     ([ErrTeamData NE SEA, AvailSummary [Str NE, Str SEA],
       AvailTeams [Str NE, Str ''Denver Broncos'']], Exited 1)"
proof -
  have s: "TEAM \<in> set (columns sample_summary)"
    by (simp add: sample_summary_def)
  have t: "TEAM \<in> set (columns sample_teams_no_sea)"
    by (simp add: sample_teams_no_sea_def)
  have miss: "\<not> has_team sample_teams_no_sea SEA"
    by (simp add: has_team_def sample_teams_no_sea_def cell_at_def label_defs)
  then have "\<not> has_team sample_summary NE \<or> \<not> has_team sample_teams_no_sea SEA
         \<or> \<not> has_team sample_summary SEA \<or> \<not> has_team sample_teams_no_sea NE"
    by simp
  from predictor_reports_missing_team [OF s t this, of parse_sample sample_predict NaN "(0, [1, 1, 0, 0])"]
  show ?thesis
    using miss
    by (simp add: unique_def sample_summary_def sample_teams_no_sea_def cell_at_def label_defs)
qed

lemma item_Some: "map_of r c = Some v \<Longrightarrow> item r c = Inr v"
  by (simp add: item_def)

text \<open>
  Claim C2. For a summary row with a score and a defense row with the average points
  scored, \<open>get_weighted_score\<close> returns the coerced score when the coercion gives a
  number, and the defense row's average points scored otherwise: nothing else is ever
  substituted. The fallback is taken exactly when the coerced score is missing, and the
  result is not missing when the fallback is not.
\<close>

theorem get_weighted_score_fallback:
  assumes "map_of team_off WPOS = Some v" and "map_of team_def_data APS = Some fallback"
  shows "get_weighted_score parse team_off team_def_data =
           Inr (if isna (to_numeric parse v) then fallback else to_numeric parse v)
     \<and> (\<forall>x. v = Num x \<and> x \<noteq> NaN \<longrightarrow>
           get_weighted_score parse team_off team_def_data = Inr (Num x))
     \<and> (\<forall>s x. v = Str s \<and> parse s = Some x \<and> x \<noteq> NaN \<longrightarrow>
           get_weighted_score parse team_off team_def_data = Inr (Num x))
     \<and> (v = Num NaN \<or> (\<exists>s. v = Str s \<and> (parse s = None \<or> parse s = Some NaN)) \<longrightarrow>
           get_weighted_score parse team_off team_def_data = Inr fallback)
     \<and> (\<not> isna fallback \<longrightarrow>
           (\<forall>c. get_weighted_score parse team_off team_def_data = Inr c \<longrightarrow> \<not> isna c))"
proof -
  have eq: "get_weighted_score parse team_off team_def_data =
           Inr (if isna (to_numeric parse v) then fallback else to_numeric parse v)"
    using assms by (simp add: get_weighted_score_def item_Some Let_def)
  have num: "isna (Num x) \<longleftrightarrow> x = NaN" for x
    by (cases x) simp_all
  show ?thesis
    unfolding eq by (auto simp: num)
qed

theorem get_weighted_score_fallback_witness:
  "get_weighted_score parse_sample [(TEAM, Str NE), (WPOS, Str ''24.5''), (OM, Num (Fin 2))]
      [(TEAM, Str NE), (APS, Num (Fin 26))] = Inr (Num (Fin 24.5))
   \<and> get_weighted_score parse_sample [(TEAM, Str SEA), (WPOS, Str ''--''), (OM, Num (Fin 3))]
      [(TEAM, Str SEA), (APS, Num (Fin 23))] = Inr (Num (Fin 23))
   \<and> get_weighted_score parse_sample [(TEAM, Str SEA), (WPOS, Num NaN), (OM, Num (Fin 3))]
      [(TEAM, Str SEA), (APS, Num (Fin 23))] = Inr (Num (Fin 23))
   \<and> get_weighted_score parse_sample [(TEAM, Str SEA), (WPOS, Num (Fin 0)), (OM, Num (Fin 3))]
      [(TEAM, Str SEA), (APS, Num (Fin 23))] = Inr (Num (Fin 0))"
  using
    get_weighted_score_fallback [of "[(TEAM, Str NE), (WPOS, Str ''24.5''), (OM, Num (Fin 2))]"
      "Str ''24.5''" "[(TEAM, Str NE), (APS, Num (Fin 26))]" "Num (Fin 26)" parse_sample]
    get_weighted_score_fallback [of "[(TEAM, Str SEA), (WPOS, Str ''--''), (OM, Num (Fin 3))]"
      "Str ''--''" "[(TEAM, Str SEA), (APS, Num (Fin 23))]" "Num (Fin 23)" parse_sample]
    get_weighted_score_fallback [of "[(TEAM, Str SEA), (WPOS, Num NaN), (OM, Num (Fin 3))]"
      "Num NaN" "[(TEAM, Str SEA), (APS, Num (Fin 23))]" "Num (Fin 23)" parse_sample]
    get_weighted_score_fallback [of "[(TEAM, Str SEA), (WPOS, Num (Fin 0)), (OM, Num (Fin 3))]"
      "Num (Fin 0)" "[(TEAM, Str SEA), (APS, Num (Fin 23))]" "Num (Fin 23)" parse_sample]
  by (simp add: parse_sample_def label_defs)

lemma fgt_fsub_nonneg: "fgt a b \<Longrightarrow> fge (fsub a b) (Fin 0)"
  by (cases a; cases b) (simp_all add: fsub_def fge_def feq_def)

lemma not_fgt_refl: "\<not> fgt a a"
  by (cases a) simp_all

lemma fgt_asym: "fgt a b \<Longrightarrow> \<not> fgt b a"
  by (cases a; cases b) simp_all

text \<open>
  Claim C1. The higher prediction wins with the difference as margin, which is not
  negative; equal predictions give a tie with margin 0.
\<close>

theorem determine_winner_correct:
  "(fgt pat_pred sea_pred \<longrightarrow>
      determine_winner pat_pred sea_pred = (NE, fsub pat_pred sea_pred)
      \<and> fge (fsub pat_pred sea_pred) (Fin 0))
   \<and> (fgt sea_pred pat_pred \<longrightarrow>
      determine_winner pat_pred sea_pred = (SEA, fsub sea_pred pat_pred)
      \<and> fge (fsub sea_pred pat_pred) (Fin 0))
   \<and> (feq pat_pred sea_pred \<longrightarrow> determine_winner pat_pred sea_pred = (''Tie'', Fin 0))"
proof (intro conjI impI)
  assume "fgt pat_pred sea_pred"
  then show "determine_winner pat_pred sea_pred = (NE, fsub pat_pred sea_pred)"
    by (simp add: determine_winner_def)
next
  assume "fgt pat_pred sea_pred"
  then show "fge (fsub pat_pred sea_pred) (Fin 0)" by (rule fgt_fsub_nonneg)
next
  assume a: "fgt sea_pred pat_pred"
  then have "\<not> fgt pat_pred sea_pred" by (rule fgt_asym)
  with a show "determine_winner pat_pred sea_pred = (SEA, fsub sea_pred pat_pred)"
    by (simp add: determine_winner_def)
next
  assume "fgt sea_pred pat_pred"
  then show "fge (fsub sea_pred pat_pred) (Fin 0)" by (rule fgt_fsub_nonneg)
next
  assume "feq pat_pred sea_pred"
  then have "pat_pred = sea_pred" by (simp add: feq_def)
  then show "determine_winner pat_pred sea_pred = (''Tie'', Fin 0)"
    by (simp add: determine_winner_def not_fgt_refl)
qed

theorem determine_winner_correct_witness:
  "determine_winner (Fin 26.5) (Fin 26) = (NE, Fin 0.5)
   \<and> determine_winner (Fin 17) (Fin 24) = (SEA, Fin 7)
   \<and> determine_winner (Fin 21) (Fin 21) = (''Tie'', Fin 0)
   \<and> determine_winner PInf (Fin 21) = (NE, PInf)"
  using determine_winner_correct [of "Fin 26.5" "Fin 26"]
    determine_winner_correct [of "Fin 17" "Fin 24"]
    determine_winner_correct [of "Fin 21" "Fin 21"]
    determine_winner_correct [of PInf "Fin 21"]
  by (simp add: fsub_def feq_def)

section \<open>Properties of the prediction frames and of the whole script\<close>

lemma features_labels:
  "features = [''Weighted Playoff Offense Score'', ''Offensive Momentum'',
               ''opp_avg_points_allowed'', ''opp_def_tier'']"
  by (simp add: features_def label_defs)

lemma matchup_frame_rows:
  assumes "matchup_frame w off opp = Inr df"
  shows "df = \<lparr>columns = features,
               rows = [[(WPOS, w), (OM, cell_at off OM), (OPA, cell_at opp APA),
                        (ODT, cell_at opp DTR)]]\<rparr>"
  using assms
  by (auto simp: matchup_frame_def item_def DataFrame_def features_def cell_at_def label_defs
      split: option.splits)

lemma matchup_frame_shaped:
  assumes "matchup_frame w off opp = Inr df"
  shows "feature_shaped df"
  unfolding matchup_frame_rows [OF assms]
  by (simp add: feature_shaped_def features_def)

lemma predict_team_cong:
  assumes "\<And>df. feature_shaped df \<Longrightarrow> predict model df = predict' model df"
  shows "predict_team parse predict model teams name off opp
         = predict_team parse predict' model teams name off opp"
  using assms
  by (auto simp: predict_team_def matchup_frame_shaped split: sum.splits)

text \<open>
  Claim C3. Every frame built for a prediction has the four feature columns, in the order
  of the training frame, and one row with the four values in that order: the weighted
  score, the team's momentum, the opponent's points allowed and the opponent's tier. The
  training frame has these columns too. The prediction stage consults the model on frames
  of this shape only: two predict routines that agree on them give the same run.
\<close>

theorem feature_vectors_match_training:
  "(\<forall>w off opp df. matchup_frame w off opp = Inr df \<longrightarrow>
       columns df = features
       \<and> rows df = [[(WPOS, w), (OM, cell_at off OM), (OPA, cell_at opp APA),
                      (ODT, cell_at opp DTR)]])
   \<and> (\<forall>games X. select_columns features games = Inr X \<longrightarrow> columns X = features)
   \<and> length features = 4
   \<and> features = [''Weighted Playoff Offense Score'', ''Offensive Momentum'',
                   ''opp_avg_points_allowed'', ''opp_def_tier'']
   \<and> ((\<forall>df. feature_shaped df \<longrightarrow> predict model df = predict' model df) \<longrightarrow>
        predictor parse predict mean_weighted_score model summary teams
        = predictor parse predict' mean_weighted_score model summary teams)"
proof (intro conjI allI impI)
  fix w off opp df
  assume m: "matchup_frame w off opp = Inr df"
  show "columns df = features"
    unfolding matchup_frame_rows [OF m] by simp
  show "rows df = [[(WPOS, w), (OM, cell_at off OM), (OPA, cell_at opp APA),
                      (ODT, cell_at opp DTR)]]"
    unfolding matchup_frame_rows [OF m] by simp
next
  fix games X
  assume "select_columns features games = Inr X"
  then show "columns X = features"
    by (auto simp: select_columns_def split: if_splits)
next
  show "length features = 4" by (simp add: features_def)
next
  show "features = [''Weighted Playoff Offense Score'', ''Offensive Momentum'',
                   ''opp_avg_points_allowed'', ''opp_def_tier'']"
    by (rule features_labels)
next
  assume "\<forall>df. feature_shaped df \<longrightarrow> predict model df = predict' model df"
  then have c: "predict_team parse predict model teams name off opp
         = predict_team parse predict' model teams name off opp" for name off opp
    by (intro predict_team_cong) blast
  show "predictor parse predict mean_weighted_score model summary teams
        = predictor parse predict' mean_weighted_score model summary teams"
    unfolding predictor_def c by (rule refl)
qed


lemma sample_training_cleaner: "cleaner parse_sample sample_joiner_result = Inr sample_training"
proof -
  have "set features \<subseteq> set (columns sample_joiner_result)"
    by (simp add: features_def sample_joiner_result_def label_defs)
  from cleaner_rows [OF this, of parse_sample] show ?thesis
    by (simp add: sample_joiner_result_def sample_training_def parse_sample_def coerce_row_def
        update_cell_def cell_at_def label_defs)
qed

lemma sample_trainer:
  "trainer sample_fit sample_training = Inr ([ModelTrained], (0, [1, 1, 0, 0]), sample_X)"
  by (simp add: trainer_def select_columns_def get_column_def absent_def features_def
      sample_fit_def sample_training_def sample_X_def cell_at_def label_defs)

lemma sample_predictor:
  "predictor parse_sample sample_predict NaN (0, [1, 1, 0, 0]) sample_summary sample_teams =
     ([Rule, Title, Rule, ScoreLine NE (Fin 26.5), ScoreLine SEA (Fin 26), Rule, WinnerLine NE,
       MarginLine (Fin 0.5), Rule], Completed)"
  by (simp add: predictor_def lookup_teams_def find_team_def predict_team_def
      get_weighted_score_def item_def matchup_frame_def DataFrame_def features_def
      sample_predict_def determine_winner_def report_def fsub_def
      sample_summary_def sample_teams_def parse_sample_def cell_at_def label_defs)


theorem feature_vectors_match_training_witness:
  "matchup_frame (Num (Fin 23)) [(TEAM, Str SEA), (WPOS, Str ''--''), (OM, Num (Fin 3))]
       [(TEAM, Str NE), (APA, Num (Fin 20)), (APS, Num (Fin 26)), (DTR, Num (Fin 2))]
     = Inr \<lparr>columns = [''Weighted Playoff Offense Score'', ''Offensive Momentum'',
                         ''opp_avg_points_allowed'', ''opp_def_tier''],
            rows = [[(WPOS, Num (Fin 23)), (OM, Num (Fin 3)), (OPA, Num (Fin 20)),
                     (ODT, Num (Fin 2))]]\<rparr>
   \<and> select_columns features sample_training = Inr sample_X
   \<and> columns sample_X = [''Weighted Playoff Offense Score'', ''Offensive Momentum'',
                         ''opp_avg_points_allowed'', ''opp_def_tier'']
   \<and> length features = 4"
proof -
  have m: "matchup_frame (Num (Fin 23)) [(TEAM, Str SEA), (WPOS, Str ''--''), (OM, Num (Fin 3))]
       [(TEAM, Str NE), (APA, Num (Fin 20)), (APS, Num (Fin 26)), (DTR, Num (Fin 2))]
     = Inr \<lparr>columns = [''Weighted Playoff Offense Score'', ''Offensive Momentum'',
                         ''opp_avg_points_allowed'', ''opp_def_tier''],
            rows = [[(WPOS, Num (Fin 23)), (OM, Num (Fin 3)), (OPA, Num (Fin 20)),
                     (ODT, Num (Fin 2))]]\<rparr>"
    by (simp add: matchup_frame_def item_def DataFrame_def features_def cell_at_def label_defs)
  have x: "select_columns features sample_training = Inr sample_X"
    by (simp add: select_columns_def absent_def features_def sample_training_def sample_X_def
        cell_at_def label_defs)
  note t = feature_vectors_match_training [of sample_predict "(0, [1, 1, 0, 0])" sample_predict
      parse_sample NaN sample_summary sample_teams]
  from t x have cx: "columns sample_X = features" by blast
  from t have len: "length features = 4"
    and f: "features = [''Weighted Playoff Offense Score'', ''Offensive Momentum'',
                   ''opp_avg_points_allowed'', ''opp_def_tier'']"
    by blast+
  have c: "columns sample_X = [''Weighted Playoff Offense Score'', ''Offensive Momentum'',
                         ''opp_avg_points_allowed'', ''opp_def_tier'']"
    using cx f by (rule trans)
  from m x c len show ?thesis by (intro conjI)
qed

lemma to_numeric_Num: "\<exists>x. to_numeric parse c = Num x"
  by (cases c) (auto split: option.splits)

lemma numbers_of_Num: "list_all is_num cs \<Longrightarrow> \<exists>xs. numbers_of cs = Inr xs"
proof (induction cs)
  case Nil
  then show ?case by simp
next
  case (Cons c cs)
  then obtain x where "c = Num x" by (cases c) auto
  moreover from Cons obtain xs where "numbers_of cs = Inr xs" by auto
  ultimately show ?case by simp
qed

lemma mean_Num: "list_all is_num cs \<Longrightarrow> \<exists>m. mean cs = Inr m"
  using numbers_of_Num [of cs] by (auto simp: mean_def)

lemma cleaned_scores_numeric:
  assumes "cleaner parse joined = Inr cleaned" "r \<in> set (rows cleaned)"
  shows "is_num (cell_at r WPOS)"
proof -
  have cols: "set features \<subseteq> set (columns joined)"
    using assms(1) by (rule cleaner_Inr_columns)
  from cleaner_rows [OF cols, of parse] assms obtain r0 where "r = coerce_row parse r0"
    by auto
  then have "cell_at r WPOS = to_numeric parse (cell_at r0 WPOS)"
    by (simp add: cell_at_coerce_row)
  then show ?thesis
    using to_numeric_Num [of parse "cell_at r0 WPOS"] by auto
qed

lemma trainer_Inr:
  assumes "trainer fit games = Inr (printed, model, X)"
  shows "select_columns features games = Inr X"
  using assms
  by (auto simp: trainer_def Let_def split: sum.splits if_splits)

lemma cell_at_selected:
  "c \<in> set cs \<Longrightarrow> cell_at (map (\<lambda>c. (c, cell_at r c)) cs) c = cell_at r c"
  by (induction cs) (auto simp: cell_at_def)

lemma trained_mean:
  assumes "cleaner parse joined = Inr cleaned" "trainer fit cleaned = Inr (printed, model, X)"
  shows "\<exists>scores m. get_column WPOS X = Inr scores \<and> mean scores = Inr m"
proof -
  have sel: "select_columns features cleaned = Inr X"
    using assms(2) by (rule trainer_Inr)
  then have X: "X = \<lparr>columns = features,
       rows = map (\<lambda>r. map (\<lambda>c. (c, cell_at r c)) features) (rows cleaned)\<rparr>"
    by (auto simp: select_columns_def split: if_splits)
  have w: "WPOS \<in> set features" by (simp add: features_def)
  define scores where "scores = map (\<lambda>r. cell_at r WPOS) (rows X)"
  have g: "get_column WPOS X = Inr scores"
    using w by (simp add: get_column_def X scores_def)
  have "scores = map (\<lambda>r. cell_at r WPOS) (rows cleaned)"
    using w by (simp add: scores_def X comp_def cell_at_selected)
  then have "list_all is_num scores"
    using cleaned_scores_numeric [OF assms(1)] by (simp add: list_all_iff)
  then obtain m where "mean scores = Inr m"
    using mean_Num by blast
  with g show ?thesis by blast
qed

lemma predictor_mean_unused:
  "predictor parse predict m model summary teams = predictor parse predict m' model summary teams"
  by (simp add: predictor_def)

text \<open>
  Claim C9. The mean of line 114 is used by nothing: the script and the script without
  that line print the same and end the same way on every input, and the prediction stage
  gives the same result whatever value the variable holds. Computing the mean cannot
  raise either, since the cleaned score column holds numbers only.
\<close>

theorem mean_weighted_score_unused:
  "main parse fit predict games0 summary0 teams
     = main_without_mean parse fit predict games0 summary0 teams
   \<and> (\<forall>m m' model summary.
        predictor parse predict m model summary teams
        = predictor parse predict m' model summary teams)"
proof -
  let ?games = "rename_games games0" and ?summary = "rename_summary summary0"
  have tail: "(case get_column WPOS X of
        Inl e \<Rightarrow> ([], Uncaught e)
      | Inr scores \<Rightarrow>
         (case mean scores of
            Inl e \<Rightarrow> ([], Uncaught e)
          | Inr m \<Rightarrow> predictor parse predict m model ?summary teams))
      = predictor parse predict NaN model ?summary teams"
    if "cleaner parse joined = Inr cleaned" "trainer fit cleaned = Inr (printed, model, X)"
    for joined cleaned printed model X
  proof -
    from trained_mean [OF that] obtain scores m
      where "get_column WPOS X = Inr scores" "mean scores = Inr m" by blast
    then show ?thesis
      by (simp add: predictor_mean_unused [of parse predict m model ?summary teams NaN])
  qed
  have a: "main parse fit predict games0 summary0 teams
     = main_without_mean parse fit predict games0 summary0 teams"
    by (auto simp: main_def main_without_mean_def Let_def tail split: sum.splits prod.splits)
  have b: "\<forall>m m' model summary.
        predictor parse predict m model summary teams
        = predictor parse predict m' model summary teams"
    by (simp add: predictor_def)
  from a b show ?thesis by (rule conjI)
qed


lemma sample_training_rows: "length (rows sample_training) = 1"
  by (simp add: sample_training_def)

lemma sample_main_without_mean:
  "main_without_mean parse_sample sample_fit sample_predict sample_games0 sample_summary0
     sample_teams = (sample_output, Completed)"
  by (simp add: main_without_mean_def sample_rename_games sample_rename_summary
      sample_teams_opp_of sample_joiner sample_training_cleaner sample_trainer sample_predictor
      add_output_def sample_output_def sample_training_rows)

theorem mean_weighted_score_unused_witness:
  "main parse_sample sample_fit sample_predict sample_games0 sample_summary0 sample_teams
     = (sample_output, Completed)
   \<and> main_without_mean parse_sample sample_fit sample_predict sample_games0 sample_summary0
       sample_teams = (sample_output, Completed)"
  using mean_weighted_score_unused [of parse_sample sample_fit sample_predict sample_games0
      sample_summary0 sample_teams] sample_main_without_mean
  by simp

end
